theory Spec2Isabelle
  imports Complex_Main "HOL-Library.Word"
begin

section \<open>Values of the JavaScript runtime\<close>

text \<open>
  A JavaScript string is a sequence of 16-bit code units; \<open>length\<close>, \<open>slice\<close> and
  \<open>trim\<close> count and inspect code units. \<open>js\<close> embeds an ASCII literal of the source.
\<close>

type_synonym jsstring = "16 word list"

definition js :: "string \<Rightarrow> jsstring" where
  "js s = map (\<lambda>c. of_nat (of_char c)) s"

text \<open>
  A number is an IEEE double: not-a-number, an infinity, negative zero, or a finite value,
  which is a rational. The program never computes with numbers; it passes them on, tests
  them for truth and converts them to and from strings.
\<close>

datatype jsnum = NaN | PosInfinity | NegInfinity | NegZero | Finite rat

text \<open>
  The values \<open>JSON.parse\<close> produces, and \<open>undefined\<close>, which a property read yields for
  an absent key. An object lists its own properties; a key is bound at most once, and
  \<open>map_of\<close> reads it.
\<close>

datatype jsval =
    JUndefined
  | JNull
  | JBool bool
  | JNum jsnum
  | JStr jsstring
  | JArr "jsval list"
  | JObj "(jsstring \<times> jsval) list"

section \<open>Errors, effects and the host\<close>

datatype issue_code =
    invalid_type
  | too_small
  | too_big
  | invalid_literal
  | invalid_url
  | custom jsstring

text \<open>A validation issue of the schema library: its code and the path of the field.\<close>

datatype zod_issue = Issue issue_code "jsstring list"

text \<open>
  What the program can throw: the schema library's \<open>ZodError\<close> from \<open>parse\<close>, the
  \<open>Error\<close> objects the source constructs (with their message), and the runtime's own
  \<open>TypeError\<close> (a property read on \<open>null\<close> or \<open>undefined\<close>, a failed conversion to a
  primitive), \<open>URIError\<close> (\<open>encodeURIComponent\<close> on a lone surrogate),
  \<open>SyntaxError\<close> (\<open>response.json()\<close> on a body that is not JSON) and the rejection of
  \<open>fetch\<close> itself.
\<close>

datatype error =
    ZodError "zod_issue list"
  | Error jsstring
  | TypeError
  | URIError
  | SyntaxError
  | FetchError

record http_request =
  req_url :: jsstring
  req_method :: jsstring
  req_headers :: "(jsstring \<times> jsstring) list"
  req_body :: "jsval option"

text \<open>
  A response offers its status, its body as text (\<open>response.text()\<close>) and its body
  parsed as JSON (\<open>response.json()\<close>, \<open>None\<close> when the body is not JSON).
\<close>

record http_response =
  res_status :: nat
  res_text :: jsstring
  res_json :: "jsval option"

text \<open>The effects an operation has on the outside: a read of \<open>process.env\<close>, a call of \<open>fetch\<close>.\<close>

datatype effect = EnvRead jsstring | Fetch http_request

text \<open>
  The host is what the program runs on and does not define: the process environment, the
  network, the URL test of the schema library's \<open>url()\<close>, and the built-in conversions
  between numbers and strings, \<open>toUpperCase\<close> and the serialisation of
  \<open>URLSearchParams\<close>. \<open>env\<close> gives the result of \<open>process.env[name]\<close> where it is a
  string or \<open>undefined\<close>, as its type says.
\<close>

record host =
  env :: "jsstring \<Rightarrow> jsstring option"
  fetch :: "http_request \<Rightarrow> error + http_response"
  is_url :: "jsstring \<Rightarrow> bool"
  number_to_string :: "jsnum \<Rightarrow> jsstring"
  string_to_number :: "jsstring \<Rightarrow> jsnum"
  to_upper_case :: "jsstring \<Rightarrow> jsstring"
  search_params_to_string :: "(jsstring \<times> jsstring) list \<Rightarrow> jsstring"

text \<open>An operation returns a value or throws, and leaves a trace of effects.\<close>

type_synonym 'a outcome = "(error + 'a) \<times> effect list"

section \<open>Built-in operations the program uses\<close>

text \<open>The white space and line terminators that \<open>String.prototype.trim\<close> removes.\<close>

definition is_whitespace :: "16 word \<Rightarrow> bool" where
  "is_whitespace c \<longleftrightarrow>
     c = 0x0009 \<or> c = 0x000A \<or> c = 0x000B \<or> c = 0x000C \<or> c = 0x000D \<or> c = 0x0020 \<or>
     c = 0x00A0 \<or> c = 0x1680 \<or> (0x2000 \<le> c \<and> c \<le> 0x200A) \<or> c = 0x2028 \<or> c = 0x2029 \<or>
     c = 0x202F \<or> c = 0x205F \<or> c = 0x3000 \<or> c = 0xFEFF"

definition trim :: "jsstring \<Rightarrow> jsstring" where
  "trim s = rev (dropWhile is_whitespace (rev (dropWhile is_whitespace s)))"

text \<open>
  Reading a property. The program reads only data keys (\<open>id\<close>, \<open>name\<close>, \<open>items\<close>,
  \<open>total\<close>, ...): none is an array index, \<open>length\<close> or a member of a built-in
  prototype, so on a string, number, boolean or array the read yields \<open>undefined\<close>.
  \<open>field v k\<close> is \<open>v?.k\<close>; \<open>get v k\<close> is \<open>v.k\<close>, which throws on \<open>null\<close> and
  \<open>undefined\<close>.
\<close>

definition field :: "jsval \<Rightarrow> jsstring \<Rightarrow> jsval" where
  "field v k =
     (case v of
        JObj kvs \<Rightarrow> (case map_of kvs k of None \<Rightarrow> JUndefined | Some x \<Rightarrow> x)
      | _ \<Rightarrow> JUndefined)"

definition nullish :: "jsval \<Rightarrow> bool" where
  "nullish v \<longleftrightarrow> v = JUndefined \<or> v = JNull"

definition get :: "jsval \<Rightarrow> jsstring \<Rightarrow> error + jsval" where
  "get v k = (if nullish v then Inl TypeError else Inr (field v k))"

text \<open>\<open>a ?? b\<close>\<close>

definition nullish_or :: "jsval \<Rightarrow> jsval \<Rightarrow> jsval" where
  "nullish_or a b = (if nullish a then b else a)"

text \<open>Truthiness (\<open>Boolean(v)\<close>, and the test of \<open>?:\<close>, \<open>!\<close> and \<open>||\<close>).\<close>

fun truthy :: "jsval \<Rightarrow> bool" where
  "truthy JUndefined = False"
| "truthy JNull = False"
| "truthy (JBool b) = b"
| "truthy (JNum n) = (n \<noteq> NaN \<and> n \<noteq> NegZero \<and> n \<noteq> Finite 0)"
| "truthy (JStr s) = (s \<noteq> [])"
| "truthy (JArr xs) = True"
| "truthy (JObj kvs) = True"

text \<open>Sequencing of computations that may throw.\<close>

definition ebind :: "error + 'a \<Rightarrow> ('a \<Rightarrow> error + 'b) \<Rightarrow> error + 'b" where
  "ebind m f = (case m of Inl e \<Rightarrow> Inl e | Inr x \<Rightarrow> f x)"

text \<open>The results of a list of computations, or the first error.\<close>

fun esequence :: "(error + 'a) list \<Rightarrow> error + 'a list" where
  "esequence [] = Inr []"
| "esequence (m # ms) = ebind m (\<lambda>y. ebind (esequence ms) (\<lambda>ys. Inr (y # ys)))"

definition emap :: "('a \<Rightarrow> error + 'b) \<Rightarrow> 'a list \<Rightarrow> error + 'b list" where
  "emap f xs = esequence (map f xs)"

fun join_comma :: "jsstring list \<Rightarrow> jsstring" where
  "join_comma [] = []"
| "join_comma [s] = s"
| "join_comma (s # t # ss) = s @ js '','' @ join_comma (t # ss)"

text \<open>
  \<open>String(v)\<close>. An array is joined with commas, \<open>null\<close> and \<open>undefined\<close> elements
  giving the empty string. An object is converted by the inherited \<open>toString\<close>, unless an
  own property of that name hides it: the conversion to a primitive then throws.
\<close>

fun String_js :: "host \<Rightarrow> jsval \<Rightarrow> error + jsstring" where
  "String_js h JUndefined = Inr (js ''undefined'')"
| "String_js h JNull = Inr (js ''null'')"
| "String_js h (JBool b) = Inr (if b then js ''true'' else js ''false'')"
| "String_js h (JNum n) = Inr (number_to_string h n)"
| "String_js h (JStr s) = Inr s"
| "String_js h (JArr xs) =
     ebind (esequence (map (\<lambda>x. if nullish x then Inr [] else String_js h x) xs))
       (\<lambda>ss. Inr (join_comma ss))"
| "String_js h (JObj kvs) =
     (if map_of kvs (js ''toString'') \<noteq> None then Inl TypeError
      else Inr (js ''[object Object]''))"

text \<open>\<open>Number(v)\<close>. An array or object goes through its string.\<close>

fun Number_js :: "host \<Rightarrow> jsval \<Rightarrow> error + jsnum" where
  "Number_js h JUndefined = Inr NaN"
| "Number_js h JNull = Inr (Finite 0)"
| "Number_js h (JBool b) = Inr (Finite (if b then 1 else 0))"
| "Number_js h (JNum n) = Inr n"
| "Number_js h (JStr s) = Inr (string_to_number h s)"
| "Number_js h (JArr xs) = ebind (String_js h (JArr xs)) (\<lambda>s. Inr (string_to_number h s))"
| "Number_js h (JObj kvs) = ebind (String_js h (JObj kvs)) (\<lambda>s. Inr (string_to_number h s))"

text \<open>The pattern \<open>x ? String(x) : null\<close>.\<close>

definition string_or_null :: "host \<Rightarrow> jsval \<Rightarrow> error + jsstring option" where
  "string_or_null h v =
     (if truthy v then ebind (String_js h v) (\<lambda>s. Inr (Some s)) else Inr None)"

text \<open>The pattern \<open>x === null ? null : Boolean(x)\<close>.\<close>

definition boolean_or_null :: "jsval \<Rightarrow> bool option" where
  "boolean_or_null v = (if v = JNull then None else Some (truthy v))"

text \<open>
  \<open>encodeURIComponent\<close>: the unreserved characters stay; every other code point is
  written as the bytes of its UTF-8 encoding, each as \<open>%\<close> and two upper-case
  hexadecimal digits; a surrogate without its partner throws.
\<close>

definition uri_unreserved :: "16 word \<Rightarrow> bool" where
  "uri_unreserved c \<longleftrightarrow>
     (0x41 \<le> c \<and> c \<le> 0x5A) \<or> (0x61 \<le> c \<and> c \<le> 0x7A) \<or> (0x30 \<le> c \<and> c \<le> 0x39) \<or>
     c = 0x2D \<or> c = 0x5F \<or> c = 0x2E \<or> c = 0x21 \<or> c = 0x7E \<or> c = 0x2A \<or> c = 0x27 \<or>
     c = 0x28 \<or> c = 0x29"

definition utf8 :: "nat \<Rightarrow> nat list" where
  "utf8 cp =
     (if cp < 0x80 then [cp]
      else if cp < 0x800 then [0xC0 + cp div 0x40, 0x80 + cp mod 0x40]
      else if cp < 0x10000 then
        [0xE0 + cp div 0x1000, 0x80 + (cp div 0x40) mod 0x40, 0x80 + cp mod 0x40]
      else
        [0xF0 + cp div 0x40000, 0x80 + (cp div 0x1000) mod 0x40,
         0x80 + (cp div 0x40) mod 0x40, 0x80 + cp mod 0x40])"

definition hex_digit :: "nat \<Rightarrow> 16 word" where
  "hex_digit d = (if d < 10 then of_nat (0x30 + d) else of_nat (0x41 + (d - 10)))"

definition percent :: "nat \<Rightarrow> jsstring" where
  "percent b = [0x25, hex_digit (b div 16), hex_digit (b mod 16)]"

fun encodeURIComponent :: "jsstring \<Rightarrow> error + jsstring" where
  "encodeURIComponent [] = Inr []"
| "encodeURIComponent (c # cs) =
     (if uri_unreserved c then ebind (encodeURIComponent cs) (\<lambda>r. Inr (c # r))
      else if c < 0xD800 \<or> 0xDFFF < c then
        ebind (encodeURIComponent cs) (\<lambda>r. Inr (concat (map percent (utf8 (unat c))) @ r))
      else if 0xDC00 \<le> c then Inl URIError
      else (case cs of
              [] \<Rightarrow> Inl URIError
            | d # ds \<Rightarrow>
                if 0xDC00 \<le> d \<and> d \<le> 0xDFFF then
                  ebind (encodeURIComponent ds)
                    (\<lambda>r. Inr (concat (map percent
                                 (utf8 ((unat c - 0xD800) * 0x400 + (unat d - 0xDC00) + 0x10000))) @ r))
                else Inl URIError))"

section \<open>Configuration\<close>

text \<open>\<open>SpotifyToolsConfig\<close>, the input type of \<open>spotifyToolsConfigSchema\<close>: every field optional.\<close>

record SpotifyToolsConfig =
  cfg_accessToken :: "jsstring option"
  cfg_tokenEnvVar :: "jsstring option"
  cfg_apiBaseUrl :: "jsstring option"
  cfg_defaultUserId :: "jsstring option"

text \<open>The output type of \<open>spotifyToolsConfigSchema\<close>: the two defaulted fields are always there.\<close>

record runtime =
  accessToken :: "jsstring option"
  tokenEnvVar :: jsstring
  apiBaseUrl :: jsstring
  defaultUserId :: "jsstring option"

text \<open>
  \<open>spotifyToolsConfigSchema.parse\<close>. \<open>tokenEnvVar\<close> and \<open>apiBaseUrl\<close> take their default
  when omitted; a given \<open>apiBaseUrl\<close> must pass the library's URL test. (The default is
  itself a URL, so a version of the library that tests the default too behaves the same.)
\<close>

definition spotifyToolsConfigSchema_parse :: "host \<Rightarrow> SpotifyToolsConfig \<Rightarrow> error + runtime" where
  "spotifyToolsConfigSchema_parse h config =
     (let url_issues =
            (case cfg_apiBaseUrl config of
               None \<Rightarrow> []
             | Some u \<Rightarrow> if is_url h u then [] else [Issue invalid_url [js ''apiBaseUrl'']])
      in if url_issues \<noteq> [] then Inl (ZodError url_issues)
         else Inr \<lparr> accessToken = cfg_accessToken config,
                    tokenEnvVar = (case cfg_tokenEnvVar config of
                                     None \<Rightarrow> js ''SPOTIFY_ACCESS_TOKEN'' | Some n \<Rightarrow> n),
                    apiBaseUrl = (case cfg_apiBaseUrl config of
                                    None \<Rightarrow> js ''https://api.spotify.com/v1'' | Some u \<Rightarrow> u),
                    defaultUserId = cfg_defaultUserId config \<rparr>)"

section \<open>Credential resolution\<close>

text \<open>\<open>a || b\<close> on values that are a string or \<open>undefined\<close>: \<open>a\<close> when it is a non-empty string.\<close>

definition or_else :: "jsstring option \<Rightarrow> jsstring option \<Rightarrow> jsstring option" where
  "or_else a b = (case a of None \<Rightarrow> b | Some s \<Rightarrow> if s \<noteq> [] then Some s else b)"

text \<open>
  \<open>resolveAccessToken\<close>. Both candidates are computed first, so the environment is read
  in every case.
\<close>

definition resolveAccessToken :: "host \<Rightarrow> runtime \<Rightarrow> jsstring outcome" where
  "resolveAccessToken h rt =
     (let explicit = map_option trim (accessToken rt);
          fromEnv = map_option trim (env h (tokenEnvVar rt));
          token = or_else (or_else explicit fromEnv) None
      in ((case token of
             None \<Rightarrow>
               Inl (Error (js ''Missing Spotify access token. Pass accessToken in config or set ''
                           @ tokenEnvVar rt @ js ''.''))
           | Some t \<Rightarrow>
               if t \<noteq> [] then Inr t
               else Inl (Error (js ''Missing Spotify access token. Pass accessToken in config or set ''
                                @ tokenEnvVar rt @ js ''.''))),
          [EnvRead (tokenEnvVar rt)]))"

section \<open>The request executor\<close>

text \<open>Sequencing of operations: the effects of both parts, in order, up to the first throw.\<close>

definition pure_outcome :: "error + 'a \<Rightarrow> 'a outcome" where
  "pure_outcome r = (r, [])"

definition obind :: "'a outcome \<Rightarrow> ('a \<Rightarrow> 'b outcome) \<Rightarrow> 'b outcome" where
  "obind m f =
     (case fst m of
        Inl e \<Rightarrow> (Inl e, snd m)
      | Inr x \<Rightarrow> (fst (f x), snd m @ snd (f x)))"

text \<open>\<open>response.ok\<close>: the status is in the range 200 to 299.\<close>

definition response_ok :: "http_response \<Rightarrow> bool" where
  "response_ok r \<longleftrightarrow> 200 \<le> res_status r \<and> res_status r \<le> 299"

text \<open>
  \<open>requestSpotify\<close>. The argument \<open>body\<close> is \<open>JUndefined\<close> when the caller gives none;
  \<open>req_body\<close> holds the value that \<open>JSON.stringify\<close> serialises.
\<close>

definition requestSpotify ::
  "host \<Rightarrow> runtime \<Rightarrow> jsstring \<Rightarrow> jsstring \<Rightarrow> jsstring \<Rightarrow> jsval \<Rightarrow> jsval outcome" where
  "requestSpotify h rt token method path body =
     (let request =
            \<lparr> req_url = apiBaseUrl rt @ path,
              req_method = method,
              req_headers =
                [(js ''authorization'', js ''Bearer '' @ token),
                 (js ''accept'', js ''application/json'')]
                @ (if body = JUndefined then [] else [(js ''content-type'', js ''application/json'')]),
              req_body = (if body = JUndefined then None else Some body) \<rparr>
      in ((case fetch h request of
             Inl e \<Rightarrow> Inl e
           | Inr response \<Rightarrow>
               if \<not> response_ok response then
                 Inl (Error (js ''Spotify API request failed (''
                             @ number_to_string h (Finite (of_nat (res_status response)))
                             @ js ''): '' @ take 400 (res_text response)))
               else (case res_json response of None \<Rightarrow> Inl SyntaxError | Some v \<Rightarrow> Inr v)),
          [Fetch request]))"

section \<open>Operation inputs\<close>

record SpotifySearchTracksInput =
  sti_query :: jsstring
  sti_limit :: jsnum
  sti_offset :: jsnum
  sti_market :: "jsstring option"

record SpotifyListMyPlaylistsInput =
  lpi_limit :: jsnum
  lpi_offset :: jsnum

record SpotifyCreatePlaylistInput =
  cpi_userId :: "jsstring option"
  cpi_name :: jsstring
  cpi_description :: "jsstring option"
  cpi_public :: bool
  cpi_collaborative :: bool
  cpi_confirm :: bool

definition searchTracksParams :: "host \<Rightarrow> SpotifySearchTracksInput \<Rightarrow> (jsstring \<times> jsstring) list" where
  "searchTracksParams h input =
     [(js ''q'', sti_query input),
      (js ''type'', js ''track''),
      (js ''limit'', number_to_string h (sti_limit input)),
      (js ''offset'', number_to_string h (sti_offset input))]
     @ (case sti_market input of
          None \<Rightarrow> []
        | Some m \<Rightarrow> if m \<noteq> [] then [(js ''market'', to_upper_case h m)] else [])"

definition listPlaylistsParams :: "host \<Rightarrow> SpotifyListMyPlaylistsInput \<Rightarrow> (jsstring \<times> jsstring) list" where
  "listPlaylistsParams h input =
     [(js ''limit'', number_to_string h (lpi_limit input)),
      (js ''offset'', number_to_string h (lpi_offset input))]"

section \<open>Resolving the account\<close>

text \<open>
  \<open>resolveUserId\<close>. A configured \<open>defaultUserId\<close> that is a non-empty string is
  returned at once; only otherwise is \<open>/me\<close> asked.
\<close>

definition resolveUserId :: "host \<Rightarrow> runtime \<Rightarrow> jsstring \<Rightarrow> jsstring outcome" where
  "resolveUserId h rt token =
     (case (case defaultUserId rt of
              Some d \<Rightarrow> if d \<noteq> [] then Some d else None
            | None \<Rightarrow> None) of
        Some d \<Rightarrow> pure_outcome (Inr d)
      | None \<Rightarrow>
          obind (requestSpotify h rt token (js ''GET'') (js ''/me'') JUndefined)
            (\<lambda>me. pure_outcome
               (if \<not> truthy (field me (js ''id'')) then
                  Inl (Error (js ''Failed to resolve authenticated Spotify user id from /me endpoint.''))
                else String_js h (field me (js ''id'')))))"

section \<open>Operation outputs and the mapping of responses\<close>

record SpotifyGetMeOutput =
  me_id :: jsstring
  me_displayName :: "jsstring option"
  me_email :: "jsstring option"
  me_country :: "jsstring option"
  me_product :: "jsstring option"
  me_followers :: jsnum
  me_uri :: "jsstring option"

record track =
  tr_id :: jsstring
  tr_name :: jsstring
  tr_artists :: "jsstring list"
  tr_album :: "jsstring option"
  tr_durationMs :: jsnum
  tr_popularity :: jsnum
  tr_uri :: jsstring
  tr_externalUrl :: "jsstring option"

record SpotifySearchTracksOutput =
  st_total :: jsnum
  st_limit :: jsnum
  st_offset :: jsnum
  st_tracks :: "track list"

record playlist =
  pl_id :: jsstring
  pl_name :: jsstring
  pl_description :: "jsstring option"
  pl_public :: "bool option"
  pl_collaborative :: bool
  pl_ownerId :: "jsstring option"
  pl_tracksTotal :: jsnum
  pl_snapshotId :: "jsstring option"
  pl_externalUrl :: "jsstring option"

record SpotifyListMyPlaylistsOutput =
  lp_total :: jsnum
  lp_limit :: jsnum
  lp_offset :: jsnum
  lp_playlists :: "playlist list"

record SpotifyCreatePlaylistOutput =
  cp_id :: jsstring
  cp_name :: jsstring
  cp_public :: "bool option"
  cp_collaborative :: bool
  cp_description :: "jsstring option"
  cp_snapshotId :: "jsstring option"
  cp_externalUrl :: "jsstring option"
  cp_ownerId :: "jsstring option"

text \<open>
  The object returned by \<open>runSpotifyGetMe\<close>, its fields computed in the order of the
  source. Where the source reads a property a second time inside \<open>String(...)\<close>, the
  value of the first read is used: a parsed JSON value has no getters.
\<close>

definition getMeOutput :: "host \<Rightarrow> jsval \<Rightarrow> error + SpotifyGetMeOutput" where
  "getMeOutput h payload =
     ebind (get payload (js ''id'')) (\<lambda>v_id.
     ebind (String_js h (nullish_or v_id (JStr []))) (\<lambda>r_id.
     ebind (get payload (js ''display_name'')) (\<lambda>v_display_name.
     ebind (string_or_null h v_display_name) (\<lambda>r_displayName.
     ebind (get payload (js ''email'')) (\<lambda>v_email.
     ebind (string_or_null h v_email) (\<lambda>r_email.
     ebind (get payload (js ''country'')) (\<lambda>v_country.
     ebind (string_or_null h v_country) (\<lambda>r_country.
     ebind (get payload (js ''product'')) (\<lambda>v_product.
     ebind (string_or_null h v_product) (\<lambda>r_product.
     ebind (get payload (js ''followers'')) (\<lambda>v_followers.
     ebind (Number_js h (nullish_or (field v_followers (js ''total'')) (JNum (Finite 0)))) (\<lambda>r_followers.
     ebind (get payload (js ''uri'')) (\<lambda>v_uri.
     ebind (string_or_null h v_uri) (\<lambda>r_uri.
       Inr \<lparr> me_id = r_id, me_displayName = r_displayName, me_email = r_email,
             me_country = r_country, me_product = r_product, me_followers = r_followers,
             me_uri = r_uri \<rparr>))))))))))))))"

text \<open>\<open>.filter(Boolean)\<close> on the mapped artist names: \<open>null\<close> and the empty string go.\<close>

fun filter_Boolean :: "jsstring option list \<Rightarrow> jsstring list" where
  "filter_Boolean [] = []"
| "filter_Boolean (None # ns) = filter_Boolean ns"
| "filter_Boolean (Some s # ns) = (if s \<noteq> [] then s # filter_Boolean ns else filter_Boolean ns)"

text \<open>The \<open>artists\<close> field of a track of \<open>runSpotifySearchTracks\<close>.\<close>

definition artistNames :: "host \<Rightarrow> jsval \<Rightarrow> error + jsstring list" where
  "artistNames h artists =
     (case artists of
        JArr as \<Rightarrow>
          ebind (emap (\<lambda>artist. string_or_null h (field artist (js ''name''))) as)
            (\<lambda>names. Inr (filter_Boolean names))
      | _ \<Rightarrow> Inr [])"

text \<open>The function mapped over the items by \<open>runSpotifySearchTracks\<close>.\<close>

definition trackOutput :: "host \<Rightarrow> jsval \<Rightarrow> error + track" where
  "trackOutput h t =
     ebind (get t (js ''id'')) (\<lambda>v_id.
     ebind (String_js h (nullish_or v_id (JStr []))) (\<lambda>r_id.
     ebind (get t (js ''name'')) (\<lambda>v_name.
     ebind (String_js h (nullish_or v_name (JStr []))) (\<lambda>r_name.
     ebind (get t (js ''artists'')) (\<lambda>v_artists.
     ebind (artistNames h v_artists) (\<lambda>r_artists.
     ebind (get t (js ''album'')) (\<lambda>v_album.
     ebind (string_or_null h (field v_album (js ''name''))) (\<lambda>r_album.
     ebind (get t (js ''duration_ms'')) (\<lambda>v_duration_ms.
     ebind (Number_js h (nullish_or v_duration_ms (JNum (Finite 0)))) (\<lambda>r_durationMs.
     ebind (get t (js ''popularity'')) (\<lambda>v_popularity.
     ebind (Number_js h (nullish_or v_popularity (JNum (Finite 0)))) (\<lambda>r_popularity.
     ebind (get t (js ''uri'')) (\<lambda>v_uri.
     ebind (String_js h (nullish_or v_uri (JStr []))) (\<lambda>r_uri.
     ebind (get t (js ''external_urls'')) (\<lambda>v_external_urls.
     ebind (string_or_null h (field v_external_urls (js ''spotify''))) (\<lambda>r_externalUrl.
       Inr \<lparr> tr_id = r_id, tr_name = r_name, tr_artists = r_artists, tr_album = r_album,
             tr_durationMs = r_durationMs, tr_popularity = r_popularity, tr_uri = r_uri,
             tr_externalUrl = r_externalUrl \<rparr>))))))))))))))))"

text \<open>\<open>Array.isArray(v) ? v : []\<close>\<close>

definition array_or_empty :: "jsval \<Rightarrow> jsval list" where
  "array_or_empty v = (case v of JArr xs \<Rightarrow> xs | _ \<Rightarrow> [])"

text \<open>\<open>items.length\<close>\<close>

definition length_js :: "jsval list \<Rightarrow> jsval" where
  "length_js xs = JNum (Finite (of_nat (length xs)))"

text \<open>The part of \<open>runSpotifySearchTracks\<close> after the request: \<open>items\<close> and the returned object.\<close>

definition searchTracksOutput ::
  "host \<Rightarrow> SpotifySearchTracksInput \<Rightarrow> jsval \<Rightarrow> error + SpotifySearchTracksOutput" where
  "searchTracksOutput h input payload =
     ebind (get payload (js ''tracks'')) (\<lambda>v_tracks.
       (let items = array_or_empty (field v_tracks (js ''items'')) in
        ebind (Number_js h (nullish_or (field v_tracks (js ''total'')) (length_js items))) (\<lambda>r_total.
        ebind (Number_js h (nullish_or (field v_tracks (js ''limit'')) (JNum (sti_limit input)))) (\<lambda>r_limit.
        ebind (Number_js h (nullish_or (field v_tracks (js ''offset'')) (JNum (sti_offset input)))) (\<lambda>r_offset.
        ebind (emap (trackOutput h) items) (\<lambda>r_tracks.
          Inr \<lparr> st_total = r_total, st_limit = r_limit, st_offset = r_offset,
                st_tracks = r_tracks \<rparr>))))))"

text \<open>The function mapped over the items by \<open>runSpotifyListMyPlaylists\<close>.\<close>

definition playlistOutput :: "host \<Rightarrow> jsval \<Rightarrow> error + playlist" where
  "playlistOutput h p =
     ebind (get p (js ''id'')) (\<lambda>v_id.
     ebind (String_js h (nullish_or v_id (JStr []))) (\<lambda>r_id.
     ebind (get p (js ''name'')) (\<lambda>v_name.
     ebind (String_js h (nullish_or v_name (JStr []))) (\<lambda>r_name.
     ebind (get p (js ''description'')) (\<lambda>v_description.
     ebind (string_or_null h v_description) (\<lambda>r_description.
     ebind (get p (js ''public'')) (\<lambda>v_public.
     ebind (get p (js ''collaborative'')) (\<lambda>v_collaborative.
     ebind (get p (js ''owner'')) (\<lambda>v_owner.
     ebind (string_or_null h (field v_owner (js ''id''))) (\<lambda>r_ownerId.
     ebind (get p (js ''tracks'')) (\<lambda>v_tracks.
     ebind (Number_js h (nullish_or (field v_tracks (js ''total'')) (JNum (Finite 0)))) (\<lambda>r_tracksTotal.
     ebind (get p (js ''snapshot_id'')) (\<lambda>v_snapshot_id.
     ebind (string_or_null h v_snapshot_id) (\<lambda>r_snapshotId.
     ebind (get p (js ''external_urls'')) (\<lambda>v_external_urls.
     ebind (string_or_null h (field v_external_urls (js ''spotify''))) (\<lambda>r_externalUrl.
       Inr \<lparr> pl_id = r_id, pl_name = r_name, pl_description = r_description,
             pl_public = boolean_or_null v_public, pl_collaborative = truthy v_collaborative,
             pl_ownerId = r_ownerId, pl_tracksTotal = r_tracksTotal,
             pl_snapshotId = r_snapshotId, pl_externalUrl = r_externalUrl \<rparr>))))))))))))))))"

text \<open>The part of \<open>runSpotifyListMyPlaylists\<close> after the request.\<close>

definition listMyPlaylistsOutput ::
  "host \<Rightarrow> SpotifyListMyPlaylistsInput \<Rightarrow> jsval \<Rightarrow> error + SpotifyListMyPlaylistsOutput" where
  "listMyPlaylistsOutput h input payload =
     ebind (get payload (js ''items'')) (\<lambda>v_items.
       (let items = array_or_empty v_items in
        ebind (get payload (js ''total'')) (\<lambda>v_total.
        ebind (Number_js h (nullish_or v_total (length_js items))) (\<lambda>r_total.
        ebind (get payload (js ''limit'')) (\<lambda>v_limit.
        ebind (Number_js h (nullish_or v_limit (JNum (lpi_limit input)))) (\<lambda>r_limit.
        ebind (get payload (js ''offset'')) (\<lambda>v_offset.
        ebind (Number_js h (nullish_or v_offset (JNum (lpi_offset input)))) (\<lambda>r_offset.
        ebind (emap (playlistOutput h) items) (\<lambda>r_playlists.
          Inr \<lparr> lp_total = r_total, lp_limit = r_limit, lp_offset = r_offset,
                lp_playlists = r_playlists \<rparr>)))))))))"

text \<open>The object returned by \<open>runSpotifyCreatePlaylist\<close>.\<close>

definition createPlaylistOutput :: "host \<Rightarrow> jsval \<Rightarrow> error + SpotifyCreatePlaylistOutput" where
  "createPlaylistOutput h payload =
     ebind (get payload (js ''id'')) (\<lambda>v_id.
     ebind (String_js h (nullish_or v_id (JStr []))) (\<lambda>r_id.
     ebind (get payload (js ''name'')) (\<lambda>v_name.
     ebind (String_js h (nullish_or v_name (JStr []))) (\<lambda>r_name.
     ebind (get payload (js ''public'')) (\<lambda>v_public.
     ebind (get payload (js ''collaborative'')) (\<lambda>v_collaborative.
     ebind (get payload (js ''description'')) (\<lambda>v_description.
     ebind (string_or_null h v_description) (\<lambda>r_description.
     ebind (get payload (js ''snapshot_id'')) (\<lambda>v_snapshot_id.
     ebind (string_or_null h v_snapshot_id) (\<lambda>r_snapshotId.
     ebind (get payload (js ''external_urls'')) (\<lambda>v_external_urls.
     ebind (string_or_null h (field v_external_urls (js ''spotify''))) (\<lambda>r_externalUrl.
     ebind (get payload (js ''owner'')) (\<lambda>v_owner.
     ebind (string_or_null h (field v_owner (js ''id''))) (\<lambda>r_ownerId.
       Inr \<lparr> cp_id = r_id, cp_name = r_name, cp_public = boolean_or_null v_public,
             cp_collaborative = truthy v_collaborative, cp_description = r_description,
             cp_snapshotId = r_snapshotId, cp_externalUrl = r_externalUrl,
             cp_ownerId = r_ownerId \<rparr>))))))))))))))"

section \<open>Operation handlers\<close>

definition runSpotifyGetMe :: "host \<Rightarrow> unit \<Rightarrow> runtime \<Rightarrow> SpotifyGetMeOutput outcome" where
  "runSpotifyGetMe h input rt =
     obind (resolveAccessToken h rt) (\<lambda>token.
     obind (requestSpotify h rt token (js ''GET'') (js ''/me'') JUndefined) (\<lambda>payload.
       pure_outcome (getMeOutput h payload)))"

definition runSpotifySearchTracks ::
  "host \<Rightarrow> SpotifySearchTracksInput \<Rightarrow> runtime \<Rightarrow> SpotifySearchTracksOutput outcome" where
  "runSpotifySearchTracks h input rt =
     obind (resolveAccessToken h rt) (\<lambda>token.
       (let params = searchTracksParams h input in
        obind (requestSpotify h rt token (js ''GET'')
                 (js ''/search?'' @ search_params_to_string h params) JUndefined) (\<lambda>payload.
          pure_outcome (searchTracksOutput h input payload))))"

definition runSpotifyListMyPlaylists ::
  "host \<Rightarrow> SpotifyListMyPlaylistsInput \<Rightarrow> runtime \<Rightarrow> SpotifyListMyPlaylistsOutput outcome" where
  "runSpotifyListMyPlaylists h input rt =
     obind (resolveAccessToken h rt) (\<lambda>token.
       (let params = listPlaylistsParams h input in
        obind (requestSpotify h rt token (js ''GET'')
                 (js ''/me/playlists?'' @ search_params_to_string h params) JUndefined) (\<lambda>payload.
          pure_outcome (listMyPlaylistsOutput h input payload))))"

text \<open>The body object of the create request; an absent description is \<open>undefined\<close>.\<close>

definition createPlaylistBody :: "SpotifyCreatePlaylistInput \<Rightarrow> jsval" where
  "createPlaylistBody input =
     JObj [(js ''name'', JStr (cpi_name input)),
           (js ''description'', (case cpi_description input of None \<Rightarrow> JUndefined | Some d \<Rightarrow> JStr d)),
           (js ''public'', JBool (cpi_public input)),
           (js ''collaborative'', JBool (cpi_collaborative input))]"

definition runSpotifyCreatePlaylist ::
  "host \<Rightarrow> SpotifyCreatePlaylistInput \<Rightarrow> runtime \<Rightarrow> SpotifyCreatePlaylistOutput outcome" where
  "runSpotifyCreatePlaylist h input rt =
     obind (resolveAccessToken h rt) (\<lambda>token.
     obind (case cpi_userId input of
              Some u \<Rightarrow> pure_outcome (Inr u)
            | None \<Rightarrow> resolveUserId h rt token) (\<lambda>userId.
     obind (pure_outcome (encodeURIComponent userId)) (\<lambda>encoded.
     obind (requestSpotify h rt token (js ''POST'')
              (js ''/users/'' @ encoded @ js ''/playlists'') (createPlaylistBody input)) (\<lambda>payload.
       pure_outcome (createPlaylistOutput h payload)))))"

definition executeSpotifyGetMe :: "host \<Rightarrow> unit \<Rightarrow> SpotifyToolsConfig \<Rightarrow> SpotifyGetMeOutput outcome" where
  "executeSpotifyGetMe h input config =
     obind (pure_outcome (spotifyToolsConfigSchema_parse h config)) (\<lambda>rt.
       runSpotifyGetMe h input rt)"

definition executeSpotifySearchTracks ::
  "host \<Rightarrow> SpotifySearchTracksInput \<Rightarrow> SpotifyToolsConfig \<Rightarrow> SpotifySearchTracksOutput outcome" where
  "executeSpotifySearchTracks h input config =
     obind (pure_outcome (spotifyToolsConfigSchema_parse h config)) (\<lambda>rt.
       runSpotifySearchTracks h input rt)"

definition executeSpotifyListMyPlaylists ::
  "host \<Rightarrow> SpotifyListMyPlaylistsInput \<Rightarrow> SpotifyToolsConfig
     \<Rightarrow> SpotifyListMyPlaylistsOutput outcome" where
  "executeSpotifyListMyPlaylists h input config =
     obind (pure_outcome (spotifyToolsConfigSchema_parse h config)) (\<lambda>rt.
       runSpotifyListMyPlaylists h input rt)"

definition executeSpotifyCreatePlaylist ::
  "host \<Rightarrow> SpotifyCreatePlaylistInput \<Rightarrow> SpotifyToolsConfig
     \<Rightarrow> SpotifyCreatePlaylistOutput outcome" where
  "executeSpotifyCreatePlaylist h input config =
     obind (pure_outcome (spotifyToolsConfigSchema_parse h config)) (\<lambda>rt.
       runSpotifyCreatePlaylist h input rt)"

section \<open>Validation of the create-playlist input\<close>

text \<open>
  The result of a field's schema on a raw value: the issues found, and the parsed value
  unless the parse was aborted. A wrong type aborts; a failed length check leaves the
  value and records the issue.
\<close>

type_synonym 'a parsed = "zod_issue list \<times> 'a option"

text \<open>\<open>z.string()\<close> with optional \<open>min\<close> and \<open>max\<close>, at the given path.\<close>

definition z_string :: "nat option \<Rightarrow> nat option \<Rightarrow> jsstring list \<Rightarrow> jsval \<Rightarrow> jsstring parsed" where
  "z_string lo hi path v =
     (case v of
        JStr s \<Rightarrow>
          ((case lo of None \<Rightarrow> [] | Some n \<Rightarrow> if length s < n then [Issue too_small path] else [])
           @ (case hi of None \<Rightarrow> [] | Some n \<Rightarrow> if n < length s then [Issue too_big path] else []),
           Some s)
      | _ \<Rightarrow> ([Issue invalid_type path], None))"

definition z_boolean :: "jsstring list \<Rightarrow> jsval \<Rightarrow> bool parsed" where
  "z_boolean path v = (case v of JBool b \<Rightarrow> ([], Some b) | _ \<Rightarrow> ([Issue invalid_type path], None))"

text \<open>\<open>z.literal(true)\<close>\<close>

definition z_literal_true :: "jsstring list \<Rightarrow> jsval \<Rightarrow> bool parsed" where
  "z_literal_true path v =
     (if v = JBool True then ([], Some True) else ([Issue invalid_literal path], None))"

definition z_optional :: "(jsval \<Rightarrow> 'a parsed) \<Rightarrow> jsval \<Rightarrow> 'a option parsed" where
  "z_optional p v =
     (if v = JUndefined then ([], Some None) else (fst (p v), map_option Some (snd (p v))))"

definition z_default :: "'a \<Rightarrow> (jsval \<Rightarrow> 'a parsed) \<Rightarrow> jsval \<Rightarrow> 'a parsed" where
  "z_default d p v = (if v = JUndefined then ([], Some d) else p v)"

text \<open>
  \<open>spotifyCreatePlaylistInputSchema\<close>: the object schema, then the refinement. The raw
  value must be an object; each field is parsed from the property of its name and the
  issues of all fields are collected. The refinement runs on the parsed object unless a
  field was aborted. The parse succeeds when there is no issue at all.
\<close>

definition spotifyCreatePlaylistInputSchema ::
  "jsval \<Rightarrow> zod_issue list + SpotifyCreatePlaylistInput" where
  "spotifyCreatePlaylistInputSchema raw =
     (case raw of
        JObj kvs \<Rightarrow>
          (let p_userId = z_optional (z_string (Some 1) None [js ''userId'']) (field raw (js ''userId''));
               p_name = z_string (Some 1) (Some 100) [js ''name''] (field raw (js ''name''));
               p_description =
                 z_optional (z_string None (Some 300) [js ''description'']) (field raw (js ''description''));
               p_public = z_default False (z_boolean [js ''public'']) (field raw (js ''public''));
               p_collaborative =
                 z_default False (z_boolean [js ''collaborative'']) (field raw (js ''collaborative''));
               p_confirm = z_literal_true [js ''confirm''] (field raw (js ''confirm''));
               issues = fst p_userId @ fst p_name @ fst p_description @ fst p_public
                        @ fst p_collaborative @ fst p_confirm
           in (case (snd p_userId, snd p_name, snd p_description, snd p_public,
                     snd p_collaborative, snd p_confirm) of
                 (Some v_userId, Some v_name, Some v_description, Some v_public,
                  Some v_collaborative, Some v_confirm) \<Rightarrow>
                   (let refined =
                          issues
                          @ (if \<not> (\<not> (v_public \<and> v_collaborative)) then
                               [Issue (custom (js ''Spotify collaborative playlists must be non-public.''))
                                  [js ''collaborative'']]
                             else [])
                    in if refined = [] then
                         Inr \<lparr> cpi_userId = v_userId, cpi_name = v_name,
                               cpi_description = v_description, cpi_public = v_public,
                               cpi_collaborative = v_collaborative, cpi_confirm = v_confirm \<rparr>
                       else Inl refined)
               | _ \<Rightarrow> Inl issues))
      | _ \<Rightarrow> Inl [Issue invalid_type []])"

section \<open>The tool and its invocation\<close>

record ('i, 'o) McpToolDefinition =
  name :: jsstring
  description :: jsstring
  inputSchema :: "jsval \<Rightarrow> zod_issue list + 'i"
  execute :: "'i \<Rightarrow> 'o outcome"

text \<open>The entry \<open>spotify_create_playlist\<close> of \<open>createSpotifyMcpTools\<close>.\<close>

definition spotify_create_playlist ::
  "host \<Rightarrow> SpotifyToolsConfig
     \<Rightarrow> (SpotifyCreatePlaylistInput, SpotifyCreatePlaylistOutput) McpToolDefinition" where
  "spotify_create_playlist h config =
     \<lparr> name = js ''spotify_create_playlist'',
       description =
         js ''Create a Spotify playlist for the authenticated user. Requires explicit confirm=true guardrail.'',
       inputSchema = spotifyCreatePlaylistInputSchema,
       execute = (\<lambda>input. executeSpotifyCreatePlaylist h input config) \<rparr>"

text \<open>
  The agent framework that calls a tool is outside the repository. As the data flow of
  the specification has it (framework, schema validation, handler), it validates the raw
  input against the tool's schema and calls \<open>execute\<close> with the parsed value only.
\<close>

definition invoke_tool :: "('i, 'o) McpToolDefinition \<Rightarrow> jsval \<Rightarrow> 'o outcome" where
  "invoke_tool tool raw =
     (case inputSchema tool raw of
        Inl issues \<Rightarrow> (Inl (ZodError issues), [])
      | Inr input \<Rightarrow> execute tool input)"

section \<open>A host for evaluation at concrete inputs\<close>

text \<open>
  Every property below is proved for an arbitrary host. To evaluate the operations at
  concrete inputs a host is needed; \<open>sample_host\<close> takes the environment and the
  network as arguments and fills the built-ins with small functions that agree with the
  runtime on the inputs named: natural numbers are written in decimal, strings of ASCII
  digits are read as numbers, ASCII letters are put in upper case, parameters made of
  letters and digits are joined as \<open>k=v&k=v\<close>, and a string passes as a URL when it
  starts with a scheme.
\<close>

fun decimal :: "nat \<Rightarrow> jsstring" where
  "decimal n =
     (if n < 10 then [of_nat (0x30 + n)] else decimal (n div 10) @ [of_nat (0x30 + n mod 10)])"

declare decimal.simps [simp del]

definition sample_number_to_string :: "jsnum \<Rightarrow> jsstring" where
  "sample_number_to_string n =
     (case n of
        Finite r \<Rightarrow> if 0 \<le> r \<and> r = of_int \<lfloor>r\<rfloor> then decimal (nat \<lfloor>r\<rfloor>) else js ''NaN''
      | _ \<Rightarrow> js ''NaN'')"

definition is_digit :: "16 word \<Rightarrow> bool" where
  "is_digit c \<longleftrightarrow> 0x30 \<le> c \<and> c \<le> 0x39"

definition sample_string_to_number :: "jsstring \<Rightarrow> jsnum" where
  "sample_string_to_number s =
     (if list_all is_digit s then Finite (of_nat (foldl (\<lambda>a c. 10 * a + (unat c - 0x30)) 0 s))
      else NaN)"

definition sample_to_upper_case :: "jsstring \<Rightarrow> jsstring" where
  "sample_to_upper_case s = map (\<lambda>c. if 0x61 \<le> c \<and> c \<le> 0x7A then c - 0x20 else c) s"

fun sample_search_params_to_string :: "(jsstring \<times> jsstring) list \<Rightarrow> jsstring" where
  "sample_search_params_to_string [] = []"
| "sample_search_params_to_string [(k, v)] = k @ js ''='' @ v"
| "sample_search_params_to_string ((k, v) # p # ps) =
     k @ js ''='' @ v @ js ''&'' @ sample_search_params_to_string (p # ps)"

definition is_alpha :: "16 word \<Rightarrow> bool" where
  "is_alpha c \<longleftrightarrow> (0x41 \<le> c \<and> c \<le> 0x5A) \<or> (0x61 \<le> c \<and> c \<le> 0x7A)"

definition has_scheme :: "jsstring \<Rightarrow> bool" where
  "has_scheme s =
     (case s of
        [] \<Rightarrow> False
      | c # cs \<Rightarrow>
          is_alpha c \<and>
          (case dropWhile (\<lambda>d. is_alpha d \<or> is_digit d \<or> d = 0x2B \<or> d = 0x2D \<or> d = 0x2E) cs of
             [] \<Rightarrow> False
           | d # ds \<Rightarrow> d = 0x3A))"

definition sample_host ::
  "(jsstring \<Rightarrow> jsstring option) \<Rightarrow> (http_request \<Rightarrow> error + http_response) \<Rightarrow> host" where
  "sample_host e f =
     \<lparr> env = e, fetch = f, is_url = has_scheme,
       number_to_string = sample_number_to_string,
       string_to_number = sample_string_to_number,
       to_upper_case = sample_to_upper_case,
       search_params_to_string = sample_search_params_to_string \<rparr>"

text \<open>A network that is down, and an environment with and without the token.\<close>

definition no_network :: "http_request \<Rightarrow> error + http_response" where
  "no_network request = Inl FetchError"

definition env_B :: "jsstring \<Rightarrow> jsstring option" where
  "env_B = map_of [(js ''SPOTIFY_ACCESS_TOKEN'', js ''B'')]"

definition env_empty :: "jsstring \<Rightarrow> jsstring option" where
  "env_empty = map_of []"

definition sample_runtime :: "jsstring option \<Rightarrow> jsstring option \<Rightarrow> runtime" where
  "sample_runtime token user =
     \<lparr> accessToken = token, tokenEnvVar = js ''SPOTIFY_ACCESS_TOKEN'',
       apiBaseUrl = js ''https://api.spotify.com/v1'', defaultUserId = user \<rparr>"

text \<open>A network that answers every request with the same response.\<close>

definition status_network ::
  "nat \<Rightarrow> jsstring \<Rightarrow> jsval option \<Rightarrow> http_request \<Rightarrow> error + http_response" where
  "status_network status text json request =
     Inr \<lparr> res_status = status, res_text = text, res_json = json \<rparr>"

text \<open>
  A network on which \<open>GET /me\<close> returns \<open>{id: "u1"}\<close> and every other request
  returns a created playlist \<open>{id: "p1", name: "x"}\<close>.
\<close>

definition me_u1_network :: "http_request \<Rightarrow> error + http_response" where
  "me_u1_network request =
     (if req_method request = js ''GET'' \<and> req_url request = js ''https://api.spotify.com/v1/me''
      then Inr \<lparr> res_status = 200, res_text = [],
                 res_json = Some (JObj [(js ''id'', JStr (js ''u1''))]) \<rparr>
      else Inr \<lparr> res_status = 201, res_text = [],
                 res_json = Some (JObj [(js ''id'', JStr (js ''p1'')),
                                        (js ''name'', JStr (js ''x''))]) \<rparr>)"

definition sample_config :: "jsstring option \<Rightarrow> SpotifyToolsConfig" where
  "sample_config url =
     \<lparr> cfg_accessToken = None, cfg_tokenEnvVar = None, cfg_apiBaseUrl = url,
       cfg_defaultUserId = None \<rparr>"

definition sample_create_input :: "jsstring option \<Rightarrow> SpotifyCreatePlaylistInput" where
  "sample_create_input user =
     \<lparr> cpi_userId = user, cpi_name = js ''x'', cpi_description = None, cpi_public = False,
       cpi_collaborative = False, cpi_confirm = True \<rparr>"

definition sample_search_input :: SpotifySearchTracksInput where
  "sample_search_input =
     \<lparr> sti_query = js ''song'', sti_limit = Finite 10, sti_offset = Finite 5, sti_market = None \<rparr>"

definition sample_list_input :: SpotifyListMyPlaylistsInput where
  "sample_list_input = \<lparr> lpi_limit = Finite 20, lpi_offset = Finite 0 \<rparr>"


section \<open>Sequencing lemmas\<close>

lemma ebind_Inl [simp]: "ebind (Inl e) f = Inl e"
  by (simp add: ebind_def)

lemma ebind_Inr [simp]: "ebind (Inr x) f = f x"
  by (simp add: ebind_def)

lemma ebind_eq_Inr: "ebind m f = Inr y \<longleftrightarrow> (\<exists>x. m = Inr x \<and> f x = Inr y)"
  by (cases m) simp_all

lemma obind_Inl [simp]: "obind (Inl e, t) f = (Inl e, t)"
  by (simp add: obind_def)

lemma obind_Inr [simp]: "obind (Inr x, t) f = (fst (f x), t @ snd (f x))"
  by (simp add: obind_def)

lemma obind_pure [simp]: "obind (pure_outcome (Inr x)) f = f x"
  by (simp add: pure_outcome_def)

lemma obind_pure_Inl [simp]: "obind (pure_outcome (Inl e)) f = (Inl e, [])"
  by (simp add: pure_outcome_def)

section \<open>Properties of credential resolution\<close>

lemma trim_Nil_iff: "trim a = [] \<longleftrightarrow> (\<forall>c\<in>set a. is_whitespace c)"
proof
  assume "trim a = []"
  then have "dropWhile is_whitespace (rev (dropWhile is_whitespace a)) = []"
    by (simp add: trim_def)
  then have all: "\<forall>x\<in>set (dropWhile is_whitespace a). is_whitespace x"
    by simp
  have "dropWhile is_whitespace a = []"
  proof (rule ccontr)
    assume ne: "dropWhile is_whitespace a \<noteq> []"
    then have "\<not> is_whitespace (hd (dropWhile is_whitespace a))"
      by (rule hd_dropWhile)
    moreover have "hd (dropWhile is_whitespace a) \<in> set (dropWhile is_whitespace a)"
      using ne by simp
    ultimately show False using all by blast
  qed
  then show "\<forall>c\<in>set a. is_whitespace c"
    by simp
next
  assume "\<forall>c\<in>set a. is_whitespace c"
  then show "trim a = []"
    by (auto simp: trim_def dest: set_dropWhileD)
qed

text \<open>
  C2. Precedence of the credential sources. An explicit credential that is non-empty
  after trimming is returned, trimmed. Otherwise the value of the environment variable
  named by the configuration is returned, trimmed, when that is non-empty. When neither
  gives a non-empty string, resolution throws the error whose message names that
  variable.
\<close>

theorem resolveAccessToken_precedence:
  "(accessToken rt = Some a \<and> trim a \<noteq> [] \<longrightarrow>
      fst (resolveAccessToken h rt) = Inr (trim a)) \<and>
   ((accessToken rt = None \<or> (accessToken rt = Some a \<and> trim a = [])) \<and>
    env h (tokenEnvVar rt) = Some b \<and> trim b \<noteq> [] \<longrightarrow>
      fst (resolveAccessToken h rt) = Inr (trim b)) \<and>
   ((accessToken rt = None \<or> (accessToken rt = Some a \<and> trim a = [])) \<and>
    (env h (tokenEnvVar rt) = None \<or> (env h (tokenEnvVar rt) = Some b \<and> trim b = [])) \<longrightarrow>
      fst (resolveAccessToken h rt) =
        Inl (Error (js ''Missing Spotify access token. Pass accessToken in config or set ''
                    @ tokenEnvVar rt @ js ''.'')))"
  by (auto simp: resolveAccessToken_def or_else_def Let_def)

theorem resolveAccessToken_precedence_witness:
  "fst (resolveAccessToken (sample_host env_B no_network) (sample_runtime (Some (js ''A'')) None))
     = Inr (js ''A'') \<and>
   fst (resolveAccessToken (sample_host env_B no_network) (sample_runtime None None))
     = Inr (js ''B'') \<and>
   fst (resolveAccessToken (sample_host env_empty no_network) (sample_runtime None None))
     = Inl (Error (js ''Missing Spotify access token. Pass accessToken in config or set SPOTIFY_ACCESS_TOKEN.''))"
  using
    resolveAccessToken_precedence
      [where h = "sample_host env_B no_network" and rt = "sample_runtime (Some (js ''A'')) None"
         and a = "js ''A''" and b = "js ''B''"]
    resolveAccessToken_precedence
      [where h = "sample_host env_B no_network" and rt = "sample_runtime None None"
         and a = "js ''A''" and b = "js ''B''"]
    resolveAccessToken_precedence
      [where h = "sample_host env_empty no_network" and rt = "sample_runtime None None"
         and a = "js ''A''" and b = "js ''B''"]
  by (simp add: sample_host_def sample_runtime_def env_B_def env_empty_def js_def trim_def
        is_whitespace_def)

text \<open>
  C10. An explicit credential that is empty or consists of white space only counts as
  absent: resolution behaves as it does without an explicit credential. It then returns
  the trimmed value of the environment variable, and throws exactly when the variable is
  unset or its value, too, is empty or white space only.
\<close>

theorem resolveAccessToken_blank_explicit:
  assumes "\<forall>c\<in>set a. is_whitespace c"
  shows "resolveAccessToken h (rt\<lparr>accessToken := Some a\<rparr>)
           = resolveAccessToken h (rt\<lparr>accessToken := None\<rparr>) \<and>
         ((\<exists>e. fst (resolveAccessToken h (rt\<lparr>accessToken := Some a\<rparr>)) = Inl e)
            \<longleftrightarrow> (case env h (tokenEnvVar rt) of
                   None \<Rightarrow> True
                 | Some v \<Rightarrow> \<forall>c\<in>set v. is_whitespace c)) \<and>
         (env h (tokenEnvVar rt) = Some b \<and> \<not> (\<forall>c\<in>set b. is_whitespace c)
            \<longrightarrow> fst (resolveAccessToken h (rt\<lparr>accessToken := Some a\<rparr>)) = Inr (trim b))"
proof -
  from assms have blank: "trim a = []"
    by (simp add: trim_Nil_iff)
  have same: "resolveAccessToken h (rt\<lparr>accessToken := Some a\<rparr>)
                = resolveAccessToken h (rt\<lparr>accessToken := None\<rparr>)"
    using blank by (simp add: resolveAccessToken_def or_else_def Let_def split: option.splits)
  have fails: "(\<exists>e. fst (resolveAccessToken h (rt\<lparr>accessToken := Some a\<rparr>)) = Inl e)
                 \<longleftrightarrow> (case env h (tokenEnvVar rt) of
                        None \<Rightarrow> True
                      | Some v \<Rightarrow> \<forall>c\<in>set v. is_whitespace c)"
    using blank
    by (auto simp: resolveAccessToken_def or_else_def Let_def trim_Nil_iff split: option.splits)
  have falls: "fst (resolveAccessToken h (rt\<lparr>accessToken := Some a\<rparr>)) = Inr (trim b)"
    if "env h (tokenEnvVar rt) = Some b" and "\<not> (\<forall>c\<in>set b. is_whitespace c)"
    using blank that
    by (auto simp: resolveAccessToken_def or_else_def Let_def trim_Nil_iff)
  from same fails falls show ?thesis
    by blast
qed

theorem resolveAccessToken_blank_explicit_witness:
  "list_all is_whitespace (js ''  '') \<and>
   env (sample_host env_B no_network) (js ''SPOTIFY_ACCESS_TOKEN'') = Some (js ''B'') \<and>
   \<not> list_all is_whitespace (js ''B'') \<and>
   resolveAccessToken (sample_host env_B no_network) (sample_runtime (Some (js ''  '')) None)
     = resolveAccessToken (sample_host env_B no_network) (sample_runtime None None) \<and>
   fst (resolveAccessToken (sample_host env_B no_network) (sample_runtime (Some (js ''  '')) None))
     = Inr (js ''B'')"
  using
    resolveAccessToken_blank_explicit
      [where a = "js ''  ''" and h = "sample_host env_B no_network"
         and rt = "sample_runtime None None" and b = "js ''B''"]
  by (simp add: sample_host_def sample_runtime_def env_B_def js_def trim_def is_whitespace_def
        resolveAccessToken_def or_else_def)

section \<open>Properties of the request executor\<close>

lemma js_header_names [simp]:
  "js ''authorization'' \<noteq> js ''accept''"
  "js ''content-type'' \<noteq> js ''authorization''"
  "js ''content-type'' \<noteq> js ''accept''"
  "js ''accept'' \<noteq> js ''authorization''"
  "js ''authorization'' \<noteq> js ''content-type''"
  "js ''accept'' \<noteq> js ''content-type''"
  by (simp_all add: js_def)

text \<open>
  C8. \<open>requestSpotify\<close> makes exactly one request: to the URL that is \<open>apiBaseUrl\<close>
  followed by \<open>path\<close>, with the given method, with the headers
  \<open>authorization: Bearer <token>\<close> and \<open>accept: application/json\<close>, and with the
  header \<open>content-type: application/json\<close> and a body exactly when a body is given.
  On a response whose status is outside 200..299 it throws the error whose message
  carries the status and the first 400 code units of the response text; on a response
  inside that range whose body is JSON it returns the parsed body.
\<close>

theorem requestSpotify_contract:
  "\<exists>request.
     snd (requestSpotify h rt token meth path body) = [Fetch request] \<and>
     req_url request = apiBaseUrl rt @ path \<and>
     req_method request = meth \<and>
     map_of (req_headers request) (js ''authorization'') = Some (js ''Bearer '' @ token) \<and>
     map_of (req_headers request) (js ''accept'') = Some (js ''application/json'') \<and>
     (body \<noteq> JUndefined \<longrightarrow>
        map_of (req_headers request) (js ''content-type'') = Some (js ''application/json'') \<and>
        req_body request = Some body) \<and>
     (body = JUndefined \<longrightarrow>
        map_of (req_headers request) (js ''content-type'') = None \<and> req_body request = None) \<and>
     (\<forall>response.
        fetch h request = Inr response \<and>
        \<not> (200 \<le> res_status response \<and> res_status response \<le> 299) \<longrightarrow>
          fst (requestSpotify h rt token meth path body) =
            Inl (Error (js ''Spotify API request failed (''
                        @ number_to_string h (Finite (of_nat (res_status response)))
                        @ js ''): '' @ take 400 (res_text response)))) \<and>
     (\<forall>response v.
        fetch h request = Inr response \<and>
        200 \<le> res_status response \<and> res_status response \<le> 299 \<and>
        res_json response = Some v \<longrightarrow>
          fst (requestSpotify h rt token meth path body) = Inr v)"
  by (simp add: requestSpotify_def Let_def response_ok_def)

theorem requestSpotify_contract_witness:
  "requestSpotify (sample_host env_B (status_network 404 (replicate 401 0x78) None))
     (sample_runtime None None) (js ''B'') (js ''GET'') (js ''/me'') JUndefined
     = (Inl (Error (js ''Spotify API request failed (404): '' @ replicate 400 0x78)),
        [Fetch \<lparr> req_url = js ''https://api.spotify.com/v1/me'', req_method = js ''GET'',
                  req_headers = [(js ''authorization'', js ''Bearer B''),
                                 (js ''accept'', js ''application/json'')],
                  req_body = None \<rparr>]) \<and>
   requestSpotify (sample_host env_B (status_network 201 [] (Some (JObj [(js ''id'', JStr (js ''p1''))]))))
     (sample_runtime None None) (js ''B'') (js ''POST'') (js ''/users/u1/playlists'')
     (JObj [(js ''name'', JStr (js ''x''))])
     = (Inr (JObj [(js ''id'', JStr (js ''p1''))]),
        [Fetch \<lparr> req_url = js ''https://api.spotify.com/v1/users/u1/playlists'',
                  req_method = js ''POST'',
                  req_headers = [(js ''authorization'', js ''Bearer B''),
                                 (js ''accept'', js ''application/json''),
                                 (js ''content-type'', js ''application/json'')],
                  req_body = Some (JObj [(js ''name'', JStr (js ''x''))]) \<rparr>])"
  using
    requestSpotify_contract
      [where h = "sample_host env_B (status_network 404 (replicate 401 0x78) None)"
         and rt = "sample_runtime None None" and token = "js ''B''" and meth = "js ''GET''"
         and path = "js ''/me''" and body = JUndefined]
    requestSpotify_contract
      [where h = "sample_host env_B (status_network 201 [] (Some (JObj [(js ''id'', JStr (js ''p1''))])))"
         and rt = "sample_runtime None None" and token = "js ''B''" and meth = "js ''POST''"
         and path = "js ''/users/u1/playlists''" and body = "JObj [(js ''name'', JStr (js ''x''))]"]
  by (simp add: requestSpotify_def sample_host_def status_network_def response_ok_def
        sample_runtime_def sample_number_to_string_def decimal.simps js_def)

section \<open>Properties of configuration resolution\<close>

text \<open>
  C9. When the given \<open>apiBaseUrl\<close> does not pass the URL test, parsing the
  configuration throws the validation error, and each of the four operations throws it
  with an empty trace of effects: the environment was not read and no request was made.
  An omitted \<open>apiBaseUrl\<close> becomes \<open>https://api.spotify.com/v1\<close> and an omitted
  \<open>tokenEnvVar\<close> becomes \<open>SPOTIFY_ACCESS_TOKEN\<close>.
\<close>

theorem malformed_apiBaseUrl_fails_first:
  "(cfg_apiBaseUrl config = Some u \<and> \<not> is_url h u \<longrightarrow>
      spotifyToolsConfigSchema_parse h config = Inl (ZodError [Issue invalid_url [js ''apiBaseUrl'']]) \<and>
      executeSpotifyGetMe h me_input config
        = (Inl (ZodError [Issue invalid_url [js ''apiBaseUrl'']]), []) \<and>
      executeSpotifySearchTracks h search_input config
        = (Inl (ZodError [Issue invalid_url [js ''apiBaseUrl'']]), []) \<and>
      executeSpotifyListMyPlaylists h list_input config
        = (Inl (ZodError [Issue invalid_url [js ''apiBaseUrl'']]), []) \<and>
      executeSpotifyCreatePlaylist h create_input config
        = (Inl (ZodError [Issue invalid_url [js ''apiBaseUrl'']]), [])) \<and>
   (cfg_apiBaseUrl config = None \<longrightarrow>
      (\<exists>rt. spotifyToolsConfigSchema_parse h config = Inr rt \<and>
            apiBaseUrl rt = js ''https://api.spotify.com/v1'')) \<and>
   (cfg_tokenEnvVar config = None \<longrightarrow>
      (\<forall>rt. spotifyToolsConfigSchema_parse h config = Inr rt \<longrightarrow>
            tokenEnvVar rt = js ''SPOTIFY_ACCESS_TOKEN''))"
  by (auto simp: spotifyToolsConfigSchema_parse_def executeSpotifyGetMe_def
        executeSpotifySearchTracks_def executeSpotifyListMyPlaylists_def
        executeSpotifyCreatePlaylist_def Let_def split: option.splits if_splits)

theorem malformed_apiBaseUrl_fails_first_witness:
  "\<not> is_url (sample_host env_B me_u1_network) (js ''not-a-url'') \<and>
   executeSpotifyGetMe (sample_host env_B me_u1_network) () (sample_config (Some (js ''not-a-url'')))
     = (Inl (ZodError [Issue invalid_url [js ''apiBaseUrl'']]), []) \<and>
   executeSpotifySearchTracks (sample_host env_B me_u1_network) sample_search_input
       (sample_config (Some (js ''not-a-url'')))
     = (Inl (ZodError [Issue invalid_url [js ''apiBaseUrl'']]), []) \<and>
   executeSpotifyListMyPlaylists (sample_host env_B me_u1_network) sample_list_input
       (sample_config (Some (js ''not-a-url'')))
     = (Inl (ZodError [Issue invalid_url [js ''apiBaseUrl'']]), []) \<and>
   executeSpotifyCreatePlaylist (sample_host env_B me_u1_network) (sample_create_input None)
       (sample_config (Some (js ''not-a-url'')))
     = (Inl (ZodError [Issue invalid_url [js ''apiBaseUrl'']]), []) \<and>
   spotifyToolsConfigSchema_parse (sample_host env_B me_u1_network) (sample_config None)
     = Inr (sample_runtime None None)"
  using
    malformed_apiBaseUrl_fails_first
      [where h = "sample_host env_B me_u1_network" and config = "sample_config (Some (js ''not-a-url''))"
         and u = "js ''not-a-url''" and me_input = "()" and search_input = sample_search_input
         and list_input = sample_list_input and create_input = "sample_create_input None"]
    malformed_apiBaseUrl_fails_first
      [where h = "sample_host env_B me_u1_network" and config = "sample_config None"]
  by (simp add: sample_host_def sample_config_def has_scheme_def is_alpha_def is_digit_def js_def
        spotifyToolsConfigSchema_parse_def sample_runtime_def)

section \<open>Properties of the create-playlist validation\<close>

lemma field_non_object:
  "field raw k \<noteq> JUndefined \<Longrightarrow> \<exists>kvs. raw = JObj kvs"
  by (cases raw) (simp_all add: field_def)

lemma z_literal_true_Some:
  "snd (z_literal_true path v) = Some c \<longleftrightarrow> v = JBool True \<and> c"
  by (auto simp: z_literal_true_def)

lemma z_literal_true_issue:
  "v \<noteq> JBool True \<Longrightarrow> z_literal_true path v = ([Issue invalid_literal path], None)"
  by (simp add: z_literal_true_def)

text \<open>
  C1. The create-playlist schema accepts a raw input only when its \<open>confirm\<close> property
  is the boolean \<open>true\<close>. For every raw input whose \<open>confirm\<close> is anything else
  (omitted, \<open>false\<close>, or not a boolean at all) validation fails, with an issue at the
  path \<open>confirm\<close> when the input is an object, and invoking the tool throws the
  validation error with an empty trace: nothing is executed.
\<close>

theorem confirm_literal_true_required:
  "(field raw (js ''confirm'') \<noteq> JBool True \<longrightarrow>
      (\<exists>issues. spotifyCreatePlaylistInputSchema raw = Inl issues \<and> issues \<noteq> [] \<and>
         invoke_tool (spotify_create_playlist h config) raw = (Inl (ZodError issues), []))) \<and>
   ((\<exists>kvs. raw = JObj kvs) \<and> field raw (js ''confirm'') \<noteq> JBool True \<longrightarrow>
      (\<exists>issues. spotifyCreatePlaylistInputSchema raw = Inl issues \<and>
         Issue invalid_literal [js ''confirm''] \<in> set issues)) \<and>
   (spotifyCreatePlaylistInputSchema raw = Inr input \<longrightarrow>
      field raw (js ''confirm'') = JBool True \<and> cpi_confirm input)"
proof (intro conjI impI)
  assume ne: "field raw (js ''confirm'') \<noteq> JBool True"
  show "\<exists>issues. spotifyCreatePlaylistInputSchema raw = Inl issues \<and> issues \<noteq> [] \<and>
         invoke_tool (spotify_create_playlist h config) raw = (Inl (ZodError issues), [])"
  proof (cases raw)
    case (JObj kvs)
    with ne show ?thesis
      by (simp add: spotifyCreatePlaylistInputSchema_def Let_def z_literal_true_issue
            invoke_tool_def spotify_create_playlist_def split: option.splits)
  qed (simp_all add: spotifyCreatePlaylistInputSchema_def invoke_tool_def
         spotify_create_playlist_def)
next
  assume "(\<exists>kvs. raw = JObj kvs) \<and> field raw (js ''confirm'') \<noteq> JBool True"
  then show "\<exists>issues. spotifyCreatePlaylistInputSchema raw = Inl issues \<and>
         Issue invalid_literal [js ''confirm''] \<in> set issues"
    by (auto simp: spotifyCreatePlaylistInputSchema_def Let_def z_literal_true_issue
          split: option.splits)
next
  assume ok: "spotifyCreatePlaylistInputSchema raw = Inr input"
  from ok obtain kvs where obj: "raw = JObj kvs"
    by (cases raw) (simp_all add: spotifyCreatePlaylistInputSchema_def)
  show "field raw (js ''confirm'') = JBool True"
  proof (rule ccontr)
    assume "field raw (js ''confirm'') \<noteq> JBool True"
    with obj ok show False
      by (simp add: spotifyCreatePlaylistInputSchema_def Let_def z_literal_true_issue
            split: option.splits)
  qed
  from ok show "cpi_confirm input"
    by (cases raw)
       (auto simp: spotifyCreatePlaylistInputSchema_def Let_def z_literal_true_Some
          split: option.splits if_splits)
qed

theorem confirm_literal_true_required_witness:
  "spotifyCreatePlaylistInputSchema (JObj [(js ''name'', JStr (js ''x''))])
     = Inl [Issue invalid_literal [js ''confirm'']] \<and>
   invoke_tool (spotify_create_playlist (sample_host env_B me_u1_network) (sample_config None))
     (JObj [(js ''name'', JStr (js ''x''))])
     = (Inl (ZodError [Issue invalid_literal [js ''confirm'']]), []) \<and>
   spotifyCreatePlaylistInputSchema (JObj [(js ''name'', JStr (js ''x'')), (js ''confirm'', JBool False)])
     = Inl [Issue invalid_literal [js ''confirm'']] \<and>
   invoke_tool (spotify_create_playlist (sample_host env_B me_u1_network) (sample_config None))
     (JObj [(js ''name'', JStr (js ''x'')), (js ''confirm'', JBool False)])
     = (Inl (ZodError [Issue invalid_literal [js ''confirm'']]), []) \<and>
   spotifyCreatePlaylistInputSchema (JObj [(js ''name'', JStr (js ''x'')), (js ''confirm'', JBool True)])
     = Inr (sample_create_input None) \<and>
   field (JObj [(js ''name'', JStr (js ''x'')), (js ''confirm'', JBool True)]) (js ''confirm'')
     = JBool True"
  using
    confirm_literal_true_required
      [where raw = "JObj [(js ''name'', JStr (js ''x''))]"
         and h = "sample_host env_B me_u1_network" and config = "sample_config None"]
    confirm_literal_true_required
      [where raw = "JObj [(js ''name'', JStr (js ''x'')), (js ''confirm'', JBool False)]"
         and h = "sample_host env_B me_u1_network" and config = "sample_config None"]
    confirm_literal_true_required
      [where raw = "JObj [(js ''name'', JStr (js ''x'')), (js ''confirm'', JBool True)]"
         and input = "sample_create_input None"]
  by (simp add: spotifyCreatePlaylistInputSchema_def Let_def z_string_def z_boolean_def
        z_literal_true_def z_optional_def z_default_def field_def js_def invoke_tool_def
        spotify_create_playlist_def sample_create_input_def)

lemma z_optional_string_valid:
  "v = JUndefined \<or> (\<exists>s. v = JStr s \<and> (case lo of None \<Rightarrow> True | Some n \<Rightarrow> n \<le> length s)
       \<and> (case hi of None \<Rightarrow> True | Some n \<Rightarrow> length s \<le> n))
   \<Longrightarrow> \<exists>r. z_optional (z_string lo hi path) v = ([], Some r)"
  by (auto simp: z_optional_def z_string_def split: option.splits)

lemma z_string_valid:
  "v = JStr s \<Longrightarrow> lo \<le> length s \<Longrightarrow> length s \<le> hi
   \<Longrightarrow> z_string (Some lo) (Some hi) path v = ([], Some s)"
  by (simp add: z_string_def)

lemma z_default_boolean_True:
  "z_default d (z_boolean path) (JBool b) = ([], Some b)"
  by (simp add: z_default_def z_boolean_def)

lemma z_string_aborted:
  "snd (z_string lo hi path v) = None \<Longrightarrow> fst (z_string lo hi path v) \<noteq> []"
  by (cases v) (simp_all add: z_string_def)

lemma z_optional_string_aborted:
  "snd (z_optional (z_string lo hi path) v) = None
   \<Longrightarrow> fst (z_optional (z_string lo hi path) v) \<noteq> []"
  by (cases v) (simp_all add: z_optional_def z_string_def)

lemma z_literal_true_aborted:
  "snd (z_literal_true path v) = None \<Longrightarrow> fst (z_literal_true path v) \<noteq> []"
  by (simp add: z_literal_true_def split: if_splits)

lemma z_string_parsed_iff:
  "snd (z_string lo hi path v) \<noteq> None \<longleftrightarrow> (\<exists>s. v = JStr s)"
  by (cases v) (simp_all add: z_string_def)

lemma z_optional_string_parsed_iff:
  "snd (z_optional (z_string lo hi path) v) \<noteq> None \<longleftrightarrow> v = JUndefined \<or> (\<exists>s. v = JStr s)"
  by (cases v) (simp_all add: z_optional_def z_string_def)

lemma z_literal_true_parsed_iff:
  "snd (z_literal_true path v) \<noteq> None \<longleftrightarrow> v = JBool True"
  by (auto simp: z_literal_true_def)

lemma z_string_no_custom:
  "Issue (custom m) q \<notin> set (fst (z_string lo hi path v))"
  by (cases v) (auto simp: z_string_def split: option.splits)

lemma z_optional_string_no_custom:
  "Issue (custom m) q \<notin> set (fst (z_optional (z_string lo hi path) v))"
  using z_string_no_custom [of m q lo hi path v] by (simp add: z_optional_def)

lemma z_literal_true_no_custom:
  "Issue (custom m) q \<notin> set (fst (z_literal_true path v))"
  by (simp add: z_literal_true_def)

lemma schema_both_flags:
  assumes "field raw (js ''public'') = JBool True"
    and "field raw (js ''collaborative'') = JBool True"
  shows "spotifyCreatePlaylistInputSchema raw =
     (let field_issues =
            fst (z_optional (z_string (Some 1) None [js ''userId'']) (field raw (js ''userId'')))
            @ fst (z_string (Some 1) (Some 100) [js ''name''] (field raw (js ''name'')))
            @ fst (z_optional (z_string None (Some 300) [js ''description''])
                     (field raw (js ''description'')))
            @ fst (z_literal_true [js ''confirm''] (field raw (js ''confirm'')))
      in if snd (z_optional (z_string (Some 1) None [js ''userId'']) (field raw (js ''userId''))) \<noteq> None
            \<and> snd (z_string (Some 1) (Some 100) [js ''name''] (field raw (js ''name''))) \<noteq> None
            \<and> snd (z_optional (z_string None (Some 300) [js ''description''])
                     (field raw (js ''description''))) \<noteq> None
            \<and> snd (z_literal_true [js ''confirm''] (field raw (js ''confirm''))) \<noteq> None
         then Inl (field_issues
                   @ [Issue (custom (js ''Spotify collaborative playlists must be non-public.''))
                        [js ''collaborative'']])
         else Inl field_issues)"
proof -
  from assms(1) obtain kvs where obj: "raw = JObj kvs"
    by (cases raw) (simp_all add: field_def)
  from assms obj show ?thesis
    by (auto simp: spotifyCreatePlaylistInputSchema_def Let_def z_default_boolean_True
          split: option.splits)
qed

text \<open>
  C4, as the code has it. Every raw input whose \<open>public\<close> and \<open>collaborative\<close> are
  both \<open>true\<close> is rejected, and invoking the tool with it executes nothing. The issue of
  the refinement, at the path \<open>collaborative\<close>, is among the issues exactly when no
  field aborts the parse, that is when \<open>confirm\<close> is \<open>true\<close>, \<open>name\<close> is a string and
  \<open>userId\<close> and \<open>description\<close> are each absent or a string (a failed length check
  does not abort). When all other fields are valid it is the only issue.
\<close>

theorem public_collaborative_rejected:
  "field raw (js ''public'') = JBool True \<and> field raw (js ''collaborative'') = JBool True \<longrightarrow>
     (\<exists>issues. spotifyCreatePlaylistInputSchema raw = Inl issues \<and> issues \<noteq> [] \<and>
        invoke_tool (spotify_create_playlist h config) raw = (Inl (ZodError issues), []) \<and>
        (Issue (custom (js ''Spotify collaborative playlists must be non-public.''))
           [js ''collaborative''] \<in> set issues
         \<longleftrightarrow> field raw (js ''confirm'') = JBool True \<and>
             (\<exists>n. field raw (js ''name'') = JStr n) \<and>
             (field raw (js ''userId'') = JUndefined \<or> (\<exists>u. field raw (js ''userId'') = JStr u)) \<and>
             (field raw (js ''description'') = JUndefined \<or>
                (\<exists>d. field raw (js ''description'') = JStr d)))) \<and>
     (field raw (js ''confirm'') = JBool True \<and>
      (\<exists>n. field raw (js ''name'') = JStr n \<and> 1 \<le> length n \<and> length n \<le> 100) \<and>
      (field raw (js ''userId'') = JUndefined \<or>
         (\<exists>u. field raw (js ''userId'') = JStr u \<and> 1 \<le> length u)) \<and>
      (field raw (js ''description'') = JUndefined \<or>
         (\<exists>d. field raw (js ''description'') = JStr d \<and> length d \<le> 300)) \<longrightarrow>
        spotifyCreatePlaylistInputSchema raw =
          Inl [Issue (custom (js ''Spotify collaborative playlists must be non-public.''))
                 [js ''collaborative'']])"
proof (intro impI conjI)
  assume both: "field raw (js ''public'') = JBool True \<and> field raw (js ''collaborative'') = JBool True"
  let ?U = "z_optional (z_string (Some 1) None [js ''userId'']) (field raw (js ''userId''))"
  let ?N = "z_string (Some 1) (Some 100) [js ''name''] (field raw (js ''name''))"
  let ?D = "z_optional (z_string None (Some 300) [js ''description'']) (field raw (js ''description''))"
  let ?C = "z_literal_true [js ''confirm''] (field raw (js ''confirm''))"
  let ?custom = "Issue (custom (js ''Spotify collaborative playlists must be non-public.''))
                   [js ''collaborative'']"
  let ?parsed = "snd ?U \<noteq> None \<and> snd ?N \<noteq> None \<and> snd ?D \<noteq> None \<and> snd ?C \<noteq> None"
  have shape: "spotifyCreatePlaylistInputSchema raw =
      (if ?parsed then Inl (fst ?U @ fst ?N @ fst ?D @ fst ?C @ [?custom])
       else Inl (fst ?U @ fst ?N @ fst ?D @ fst ?C))"
    using both schema_both_flags [of raw] by (simp add: Let_def)
  have no_custom: "?custom \<notin> set (fst ?U @ fst ?N @ fst ?D @ fst ?C)"
    by (simp add: z_string_no_custom z_optional_string_no_custom z_literal_true_no_custom)
  have parsed_iff: "?parsed \<longleftrightarrow>
      field raw (js ''confirm'') = JBool True \<and>
      (\<exists>n. field raw (js ''name'') = JStr n) \<and>
      (field raw (js ''userId'') = JUndefined \<or> (\<exists>u. field raw (js ''userId'') = JStr u)) \<and>
      (field raw (js ''description'') = JUndefined \<or> (\<exists>d. field raw (js ''description'') = JStr d))"
    unfolding z_string_parsed_iff z_optional_string_parsed_iff z_literal_true_parsed_iff
    by blast
  have nonempty: "\<not> ?parsed \<Longrightarrow> fst ?U @ fst ?N @ fst ?D @ fst ?C \<noteq> []"
    using z_string_aborted [of "Some 1" "Some 100" "[js ''name'']" "field raw (js ''name'')"]
      z_optional_string_aborted [of "Some 1" None "[js ''userId'']" "field raw (js ''userId'')"]
      z_optional_string_aborted [of None "Some 300" "[js ''description'']" "field raw (js ''description'')"]
      z_literal_true_aborted [of "[js ''confirm'']" "field raw (js ''confirm'')"]
    by auto
  show "\<exists>issues. spotifyCreatePlaylistInputSchema raw = Inl issues \<and> issues \<noteq> [] \<and>
        invoke_tool (spotify_create_playlist h config) raw = (Inl (ZodError issues), []) \<and>
        (?custom \<in> set issues
         \<longleftrightarrow> field raw (js ''confirm'') = JBool True \<and>
             (\<exists>n. field raw (js ''name'') = JStr n) \<and>
             (field raw (js ''userId'') = JUndefined \<or> (\<exists>u. field raw (js ''userId'') = JStr u)) \<and>
             (field raw (js ''description'') = JUndefined \<or>
                (\<exists>d. field raw (js ''description'') = JStr d)))"
  proof (cases ?parsed)
    case True
    with shape have eq: "spotifyCreatePlaylistInputSchema raw
        = Inl (fst ?U @ fst ?N @ fst ?D @ fst ?C @ [?custom])"
      by simp
    have run: "invoke_tool (spotify_create_playlist h config) raw
        = (Inl (ZodError (fst ?U @ fst ?N @ fst ?D @ fst ?C @ [?custom])), [])"
      by (simp add: invoke_tool_def spotify_create_playlist_def eq)
    have there: "?custom \<in> set (fst ?U @ fst ?N @ fst ?D @ fst ?C @ [?custom])"
      by simp
    have full: "fst ?U @ fst ?N @ fst ?D @ fst ?C @ [?custom] \<noteq> []"
      by simp
    from True parsed_iff have cond: "field raw (js ''confirm'') = JBool True \<and>
        (\<exists>n. field raw (js ''name'') = JStr n) \<and>
        (field raw (js ''userId'') = JUndefined \<or> (\<exists>u. field raw (js ''userId'') = JStr u)) \<and>
        (field raw (js ''description'') = JUndefined \<or>
           (\<exists>d. field raw (js ''description'') = JStr d))"
      by blast
    from eq full run there cond show ?thesis
      by blast
  next
    case False
    with shape have eq: "spotifyCreatePlaylistInputSchema raw
        = Inl (fst ?U @ fst ?N @ fst ?D @ fst ?C)"
      by simp
    have run: "invoke_tool (spotify_create_playlist h config) raw
        = (Inl (ZodError (fst ?U @ fst ?N @ fst ?D @ fst ?C)), [])"
      by (simp add: invoke_tool_def spotify_create_playlist_def eq)
    from False parsed_iff have cond: "\<not> (field raw (js ''confirm'') = JBool True \<and>
        (\<exists>n. field raw (js ''name'') = JStr n) \<and>
        (field raw (js ''userId'') = JUndefined \<or> (\<exists>u. field raw (js ''userId'') = JStr u)) \<and>
        (field raw (js ''description'') = JUndefined \<or>
           (\<exists>d. field raw (js ''description'') = JStr d)))"
      by blast
    from eq nonempty [OF False] run no_custom cond show ?thesis
      by blast
  qed
next
  assume both: "field raw (js ''public'') = JBool True \<and> field raw (js ''collaborative'') = JBool True"
  assume valid: "field raw (js ''confirm'') = JBool True \<and>
      (\<exists>n. field raw (js ''name'') = JStr n \<and> 1 \<le> length n \<and> length n \<le> 100) \<and>
      (field raw (js ''userId'') = JUndefined \<or>
         (\<exists>u. field raw (js ''userId'') = JStr u \<and> 1 \<le> length u)) \<and>
      (field raw (js ''description'') = JUndefined \<or>
         (\<exists>d. field raw (js ''description'') = JStr d \<and> length d \<le> 300))"
  from valid obtain n where name: "z_string (Some 1) (Some 100) [js ''name''] (field raw (js ''name''))
      = ([], Some n)"
    by (auto simp: z_string_valid)
  from valid obtain u where user:
    "z_optional (z_string (Some 1) None [js ''userId'']) (field raw (js ''userId'')) = ([], Some u)"
    using z_optional_string_valid [of "field raw (js ''userId'')" "Some 1" None "[js ''userId'']"]
    by auto
  from valid obtain d where descr:
    "z_optional (z_string None (Some 300) [js ''description'']) (field raw (js ''description''))
       = ([], Some d)"
    using z_optional_string_valid
            [of "field raw (js ''description'')" None "Some 300" "[js ''description'']"]
    by auto
  from valid have confirm: "z_literal_true [js ''confirm''] (field raw (js ''confirm'')) = ([], Some True)"
    by (simp add: z_literal_true_def)
  from both name user descr confirm
  show "spotifyCreatePlaylistInputSchema raw =
          Inl [Issue (custom (js ''Spotify collaborative playlists must be non-public.''))
                 [js ''collaborative'']]"
    using schema_both_flags [of raw] by (simp add: Let_def)
qed

theorem public_collaborative_rejected_witness:
  "field (JObj [(js ''public'', JBool True), (js ''collaborative'', JBool True),
                (js ''confirm'', JBool True), (js ''name'', JStr (js ''x''))]) (js ''public'')
     = JBool True \<and>
   spotifyCreatePlaylistInputSchema
     (JObj [(js ''public'', JBool True), (js ''collaborative'', JBool True),
            (js ''confirm'', JBool True), (js ''name'', JStr (js ''x''))])
     = Inl [Issue (custom (js ''Spotify collaborative playlists must be non-public.''))
              [js ''collaborative'']] \<and>
   invoke_tool (spotify_create_playlist (sample_host env_B me_u1_network) (sample_config None))
     (JObj [(js ''public'', JBool True), (js ''collaborative'', JBool True),
            (js ''confirm'', JBool True), (js ''name'', JStr (js ''x''))])
     = (Inl (ZodError [Issue (custom (js ''Spotify collaborative playlists must be non-public.''))
                         [js ''collaborative'']]), []) \<and>
   spotifyCreatePlaylistInputSchema
     (JObj [(js ''public'', JBool True), (js ''collaborative'', JBool True),
            (js ''confirm'', JBool True), (js ''name'', JStr [])])
     = Inl [Issue too_small [js ''name''],
            Issue (custom (js ''Spotify collaborative playlists must be non-public.''))
              [js ''collaborative'']]"
  using
    public_collaborative_rejected
      [where raw = "JObj [(js ''public'', JBool True), (js ''collaborative'', JBool True),
                          (js ''confirm'', JBool True), (js ''name'', JStr (js ''x''))]"
         and h = "sample_host env_B me_u1_network" and config = "sample_config None"]
    public_collaborative_rejected
      [where raw = "JObj [(js ''public'', JBool True), (js ''collaborative'', JBool True),
                          (js ''confirm'', JBool True), (js ''name'', JStr [])]"
         and h = "sample_host env_B me_u1_network" and config = "sample_config None"]
  by (simp add: spotifyCreatePlaylistInputSchema_def Let_def z_string_def z_boolean_def
        z_literal_true_def z_optional_def z_default_def field_def js_def invoke_tool_def
        spotify_create_playlist_def)

text \<open>
  The claim as stated fails where a field aborts the parse: on
  \<open>{public: true, collaborative: true, name: "x"}\<close>, without \<open>confirm\<close>, the input
  is rejected with the issue at \<open>confirm\<close> alone and nothing is attached to
  \<open>collaborative\<close>.
\<close>

theorem public_collaborative_aborted_counterexample:
  "field (JObj [(js ''public'', JBool True), (js ''collaborative'', JBool True),
                (js ''name'', JStr (js ''x''))]) (js ''public'') = JBool True \<and>
   field (JObj [(js ''public'', JBool True), (js ''collaborative'', JBool True),
                (js ''name'', JStr (js ''x''))]) (js ''collaborative'') = JBool True \<and>
   spotifyCreatePlaylistInputSchema
     (JObj [(js ''public'', JBool True), (js ''collaborative'', JBool True),
            (js ''name'', JStr (js ''x''))])
     = Inl [Issue invalid_literal [js ''confirm'']] \<and>
   Issue (custom (js ''Spotify collaborative playlists must be non-public.'')) [js ''collaborative'']
     \<notin> set [Issue invalid_literal [js ''confirm'']]"
  by (simp add: spotifyCreatePlaylistInputSchema_def Let_def z_string_def z_boolean_def
        z_literal_true_def z_optional_def z_default_def field_def js_def)

section \<open>Properties of the create-playlist handler\<close>

lemma encodeURIComponent_unreserved:
  "list_all uri_unreserved u \<Longrightarrow> encodeURIComponent u = Inr u"
  by (induction u) simp_all

lemma resolveAccessToken_snd [simp]:
  "snd (resolveAccessToken h rt) = [EnvRead (tokenEnvVar rt)]"
  by (simp add: resolveAccessToken_def or_else_def Let_def)

lemma requestSpotify_snd [simp]:
  "snd (requestSpotify h rt token method path body) =
     [Fetch \<lparr> req_url = apiBaseUrl rt @ path, req_method = method,
               req_headers =
                 [(js ''authorization'', js ''Bearer '' @ token),
                  (js ''accept'', js ''application/json'')]
                 @ (if body = JUndefined then [] else [(js ''content-type'', js ''application/json'')]),
               req_body = (if body = JUndefined then None else Some body) \<rparr>]"
  by (simp add: requestSpotify_def Let_def)

lemma obind_fst:
  "fst (obind m f) = (case fst m of Inl e \<Rightarrow> Inl e | Inr x \<Rightarrow> fst (f x))"
  by (simp add: obind_def split: sum.splits)

lemma obind_snd:
  "snd (obind m f) = (case fst m of Inl e \<Rightarrow> snd m | Inr x \<Rightarrow> snd m @ snd (f x))"
  by (simp add: obind_def split: sum.splits)

lemma pure_outcome_fst [simp]: "fst (pure_outcome r) = r"
  by (simp add: pure_outcome_def)

lemma pure_outcome_snd [simp]: "snd (pure_outcome r) = []"
  by (simp add: pure_outcome_def)

lemma obind_pure_snd [simp]: "snd (obind m (\<lambda>x. pure_outcome (g x))) = snd m"
  by (simp add: obind_snd split: sum.splits)

lemma obind_pure_fst [simp]: "fst (obind m (\<lambda>x. pure_outcome (g x))) = ebind (fst m) g"
  by (simp add: obind_fst ebind_def split: sum.splits)

lemma createPlaylistBody_defined [simp]: "createPlaylistBody input \<noteq> JUndefined"
  by (simp add: createPlaylistBody_def)

lemma resolveUserId_default:
  "defaultUserId rt = Some d \<Longrightarrow> d \<noteq> [] \<Longrightarrow> resolveUserId h rt token = (Inr d, [])"
  by (simp add: resolveUserId_def pure_outcome_def)

lemma resolveUserId_me:
  "defaultUserId rt = None \<or> defaultUserId rt = Some [] \<Longrightarrow>
   resolveUserId h rt token =
     obind (requestSpotify h rt token (js ''GET'') (js ''/me'') JUndefined)
       (\<lambda>me. pure_outcome
          (if \<not> truthy (field me (js ''id'')) then
             Inl (Error (js ''Failed to resolve authenticated Spotify user id from /me endpoint.''))
           else String_js h (field me (js ''id''))))"
  by (auto simp: resolveUserId_def)

text \<open>
  C3, as the code has it. Once the credential is resolved, the account of a
  create-playlist invocation is: the \<open>userId\<close> of the input when given; otherwise the
  \<open>defaultUserId\<close> of the configuration when that is a non-empty string, and then
  \<open>/me\<close> is not requested; otherwise the \<open>id\<close> that \<open>GET /me\<close> returns, converted
  to a string, the invocation throwing the resolution error when that \<open>id\<close> is absent
  or otherwise falsy. The playlist is then created by one \<open>POST\<close> to
  \<open>/users/{account}/playlists\<close>, the account written with \<open>encodeURIComponent\<close>
  (which leaves an id of unreserved characters, such as \<open>u1\<close>, as it is), with the body
  \<open>{name, description, public, collaborative}\<close>.
\<close>

theorem createPlaylist_target_account:
  assumes token: "fst (resolveAccessToken h rt) = Inr token"
  shows
    "(let post = (\<lambda>encoded.
            \<lparr> req_url = apiBaseUrl rt @ js ''/users/'' @ encoded @ js ''/playlists'',
              req_method = js ''POST'',
              req_headers = [(js ''authorization'', js ''Bearer '' @ token),
                             (js ''accept'', js ''application/json''),
                             (js ''content-type'', js ''application/json'')],
              req_body = Some (JObj [(js ''name'', JStr (cpi_name input)),
                                     (js ''description'',
                                      (case cpi_description input of
                                         None \<Rightarrow> JUndefined | Some d \<Rightarrow> JStr d)),
                                     (js ''public'', JBool (cpi_public input)),
                                     (js ''collaborative'', JBool (cpi_collaborative input))]) \<rparr>);
          me_request =
            \<lparr> req_url = apiBaseUrl rt @ js ''/me'', req_method = js ''GET'',
              req_headers = [(js ''authorization'', js ''Bearer '' @ token),
                             (js ''accept'', js ''application/json'')],
              req_body = None \<rparr>;
          run = runSpotifyCreatePlaylist h input rt
      in
        (cpi_userId input = Some u \<and> encodeURIComponent u = Inr enc \<longrightarrow>
           snd run = [EnvRead (tokenEnvVar rt), Fetch (post enc)]) \<and>
        (cpi_userId input = None \<and> defaultUserId rt = Some d \<and> d \<noteq> [] \<and>
         encodeURIComponent d = Inr enc \<longrightarrow>
           snd run = [EnvRead (tokenEnvVar rt), Fetch (post enc)]) \<and>
        (cpi_userId input = None \<and> (defaultUserId rt = None \<or> defaultUserId rt = Some []) \<and>
         fst (requestSpotify h rt token (js ''GET'') (js ''/me'') JUndefined) = Inr me \<longrightarrow>
           (\<not> truthy (field me (js ''id'')) \<longrightarrow>
              run = (Inl (Error (js ''Failed to resolve authenticated Spotify user id from /me endpoint.'')),
                     [EnvRead (tokenEnvVar rt), Fetch me_request])) \<and>
           (truthy (field me (js ''id'')) \<and> String_js h (field me (js ''id'')) = Inr uid \<and>
            encodeURIComponent uid = Inr enc \<longrightarrow>
              snd run = [EnvRead (tokenEnvVar rt), Fetch me_request, Fetch (post enc)])) \<and>
        (list_all uri_unreserved u \<longrightarrow> encodeURIComponent u = Inr u))"
proof -
  have first: "resolveAccessToken h rt = (Inr token, [EnvRead (tokenEnvVar rt)])"
    using token by (simp add: prod_eq_iff)
  show ?thesis
    using first
    by (auto simp: Let_def runSpotifyCreatePlaylist_def resolveUserId_default resolveUserId_me
          obind_fst obind_snd createPlaylistBody_def encodeURIComponent_unreserved prod_eq_iff)
qed

theorem createPlaylist_target_account_witness:
  "fst (resolveAccessToken (sample_host env_B me_u1_network) (sample_runtime None None)) = Inr (js ''B'') \<and>
   snd (runSpotifyCreatePlaylist (sample_host env_B me_u1_network)
          (sample_create_input (Some (js ''u9''))) (sample_runtime None None))
     = [EnvRead (js ''SPOTIFY_ACCESS_TOKEN''),
        Fetch \<lparr> req_url = js ''https://api.spotify.com/v1/users/u9/playlists'',
                 req_method = js ''POST'',
                 req_headers = [(js ''authorization'', js ''Bearer B''),
                                (js ''accept'', js ''application/json''),
                                (js ''content-type'', js ''application/json'')],
                 req_body = Some (JObj [(js ''name'', JStr (js ''x'')),
                                        (js ''description'', JUndefined),
                                        (js ''public'', JBool False),
                                        (js ''collaborative'', JBool False)]) \<rparr>] \<and>
   snd (runSpotifyCreatePlaylist (sample_host env_B me_u1_network)
          (sample_create_input None) (sample_runtime None (Some (js ''d1''))))
     = [EnvRead (js ''SPOTIFY_ACCESS_TOKEN''),
        Fetch \<lparr> req_url = js ''https://api.spotify.com/v1/users/d1/playlists'',
                 req_method = js ''POST'',
                 req_headers = [(js ''authorization'', js ''Bearer B''),
                                (js ''accept'', js ''application/json''),
                                (js ''content-type'', js ''application/json'')],
                 req_body = Some (JObj [(js ''name'', JStr (js ''x'')),
                                        (js ''description'', JUndefined),
                                        (js ''public'', JBool False),
                                        (js ''collaborative'', JBool False)]) \<rparr>] \<and>
   fst (requestSpotify (sample_host env_B me_u1_network) (sample_runtime None None) (js ''B'')
          (js ''GET'') (js ''/me'') JUndefined)
     = Inr (JObj [(js ''id'', JStr (js ''u1''))]) \<and>
   snd (runSpotifyCreatePlaylist (sample_host env_B me_u1_network)
          (sample_create_input None) (sample_runtime None None))
     = [EnvRead (js ''SPOTIFY_ACCESS_TOKEN''),
        Fetch \<lparr> req_url = js ''https://api.spotify.com/v1/me'', req_method = js ''GET'',
                 req_headers = [(js ''authorization'', js ''Bearer B''),
                                (js ''accept'', js ''application/json'')],
                 req_body = None \<rparr>,
        Fetch \<lparr> req_url = js ''https://api.spotify.com/v1/users/u1/playlists'',
                 req_method = js ''POST'',
                 req_headers = [(js ''authorization'', js ''Bearer B''),
                                (js ''accept'', js ''application/json''),
                                (js ''content-type'', js ''application/json'')],
                 req_body = Some (JObj [(js ''name'', JStr (js ''x'')),
                                        (js ''description'', JUndefined),
                                        (js ''public'', JBool False),
                                        (js ''collaborative'', JBool False)]) \<rparr>] \<and>
   runSpotifyCreatePlaylist (sample_host env_B (status_network 200 [] (Some (JObj []))))
       (sample_create_input None) (sample_runtime None None)
     = (Inl (Error (js ''Failed to resolve authenticated Spotify user id from /me endpoint.'')),
        [EnvRead (js ''SPOTIFY_ACCESS_TOKEN''),
         Fetch \<lparr> req_url = js ''https://api.spotify.com/v1/me'', req_method = js ''GET'',
                  req_headers = [(js ''authorization'', js ''Bearer B''),
                                 (js ''accept'', js ''application/json'')],
                  req_body = None \<rparr>])"
  using
    createPlaylist_target_account
      [where h = "sample_host env_B me_u1_network" and rt = "sample_runtime None None"
         and token = "js ''B''" and input = "sample_create_input (Some (js ''u9''))"
         and u = "js ''u9''" and enc = "js ''u9''"]
    createPlaylist_target_account
      [where h = "sample_host env_B me_u1_network" and rt = "sample_runtime None (Some (js ''d1''))"
         and token = "js ''B''" and input = "sample_create_input None"
         and d = "js ''d1''" and enc = "js ''d1''"]
    createPlaylist_target_account
      [where h = "sample_host env_B me_u1_network" and rt = "sample_runtime None None"
         and token = "js ''B''" and input = "sample_create_input None"
         and me = "JObj [(js ''id'', JStr (js ''u1''))]" and uid = "js ''u1''" and enc = "js ''u1''"]
    createPlaylist_target_account
      [where h = "sample_host env_B (status_network 200 [] (Some (JObj [])))"
         and rt = "sample_runtime None None"
         and token = "js ''B''" and input = "sample_create_input None"
         and me = "JObj []"]
  by (simp add: Let_def resolveAccessToken_def or_else_def sample_host_def sample_runtime_def env_B_def
        sample_create_input_def me_u1_network_def status_network_def requestSpotify_def
        response_ok_def uri_unreserved_def field_def trim_def is_whitespace_def js_def)

text \<open>
  The claim as stated fails where the configuration has a default account: without
  \<open>userId\<close>, on a network whose \<open>/me\<close> returns \<open>{id: "u1"}\<close>, the only request is
  the \<open>POST\<close> to \<open>/users/d1/playlists\<close>.
\<close>

theorem createPlaylist_default_user_counterexample:
  "cpi_userId (sample_create_input None) = None \<and>
   fst (requestSpotify (sample_host env_B me_u1_network) (sample_runtime None (Some (js ''d1'')))
          (js ''B'') (js ''GET'') (js ''/me'') JUndefined)
     = Inr (JObj [(js ''id'', JStr (js ''u1''))]) \<and>
   snd (runSpotifyCreatePlaylist (sample_host env_B me_u1_network)
          (sample_create_input None) (sample_runtime None (Some (js ''d1''))))
     = [EnvRead (js ''SPOTIFY_ACCESS_TOKEN''),
        Fetch \<lparr> req_url = js ''https://api.spotify.com/v1/users/d1/playlists'',
                 req_method = js ''POST'',
                 req_headers = [(js ''authorization'', js ''Bearer B''),
                                (js ''accept'', js ''application/json''),
                                (js ''content-type'', js ''application/json'')],
                 req_body = Some (JObj [(js ''name'', JStr (js ''x'')),
                                        (js ''description'', JUndefined),
                                        (js ''public'', JBool False),
                                        (js ''collaborative'', JBool False)]) \<rparr>] \<and>
   js ''https://api.spotify.com/v1/users/d1/playlists''
     \<noteq> js ''https://api.spotify.com/v1/users/u1/playlists''"
  by (simp add: runSpotifyCreatePlaylist_def resolveUserId_def createPlaylistBody_def
        obind_snd obind_fst resolveAccessToken_def or_else_def sample_host_def sample_runtime_def env_B_def
        sample_create_input_def me_u1_network_def requestSpotify_def
        response_ok_def uri_unreserved_def trim_def is_whitespace_def js_def)

section \<open>Properties of the response mappings\<close>

lemma get_eq_Inr: "get v k = Inr x \<longleftrightarrow> \<not> nullish v \<and> x = field v k"
  by (auto simp: get_def)

lemma nullish_or_undefined [simp]: "nullish_or JUndefined b = b"
  by (simp add: nullish_or_def nullish_def)

lemma searchTracksOutput_echo:
  assumes "searchTracksOutput h input payload = Inr out"
  shows "field (field payload (js ''tracks'')) (js ''limit'') = JUndefined
           \<Longrightarrow> st_limit out = sti_limit input"
    and "field (field payload (js ''tracks'')) (js ''offset'') = JUndefined
           \<Longrightarrow> st_offset out = sti_offset input"
  using assms
  by (auto simp: searchTracksOutput_def Let_def ebind_eq_Inr get_eq_Inr)

lemma listMyPlaylistsOutput_echo:
  assumes "listMyPlaylistsOutput h input payload = Inr out"
  shows "field payload (js ''limit'') = JUndefined \<Longrightarrow> lp_limit out = lpi_limit input"
    and "field payload (js ''offset'') = JUndefined \<Longrightarrow> lp_offset out = lpi_offset input"
  using assms
  by (auto simp: listMyPlaylistsOutput_def Let_def ebind_eq_Inr get_eq_Inr)

lemma runSpotifySearchTracks_fst:
  "fst (runSpotifySearchTracks h input rt) =
     ebind (fst (resolveAccessToken h rt)) (\<lambda>token.
     ebind (fst (requestSpotify h rt token (js ''GET'')
                   (js ''/search?'' @ search_params_to_string h (searchTracksParams h input))
                   JUndefined))
       (searchTracksOutput h input))"
  by (simp add: runSpotifySearchTracks_def Let_def obind_fst ebind_def split: sum.splits)

lemma runSpotifyListMyPlaylists_fst:
  "fst (runSpotifyListMyPlaylists h input rt) =
     ebind (fst (resolveAccessToken h rt)) (\<lambda>token.
     ebind (fst (requestSpotify h rt token (js ''GET'')
                   (js ''/me/playlists?'' @ search_params_to_string h (listPlaylistsParams h input))
                   JUndefined))
       (listMyPlaylistsOutput h input))"
  by (simp add: runSpotifyListMyPlaylists_def Let_def obind_fst ebind_def split: sum.splits)

text \<open>
  C6. For a valid input, with an integer \<open>limit\<close> from 1 to 50 and an integer
  \<open>offset\<close> of at least 0: when the response of the request omits \<open>limit\<close> and
  \<open>offset\<close> (in \<open>tracks\<close> for Search-Tracks, at the top for List-My-Playlists),
  the output of the operation has the \<open>limit\<close> and \<open>offset\<close> of the input.
\<close>

theorem limit_offset_echoed:
  assumes "sti_limit sinput = Finite (of_int l)" and "lpi_limit linput = Finite (of_int l)"
    and "1 \<le> l" and "l \<le> 50"
    and "sti_offset sinput = Finite (of_int k)" and "lpi_offset linput = Finite (of_int k)"
    and "0 \<le> k"
  shows
    "(fst (resolveAccessToken h rt) = Inr token \<and>
      fst (requestSpotify h rt token (js ''GET'')
             (js ''/search?'' @ search_params_to_string h (searchTracksParams h sinput)) JUndefined)
        = Inr payload \<and>
      field (field payload (js ''tracks'')) (js ''limit'') = JUndefined \<and>
      field (field payload (js ''tracks'')) (js ''offset'') = JUndefined \<and>
      fst (runSpotifySearchTracks h sinput rt) = Inr sout \<longrightarrow>
        st_limit sout = sti_limit sinput \<and> st_offset sout = sti_offset sinput) \<and>
     (fst (resolveAccessToken h rt) = Inr token \<and>
      fst (requestSpotify h rt token (js ''GET'')
             (js ''/me/playlists?'' @ search_params_to_string h (listPlaylistsParams h linput))
             JUndefined)
        = Inr payload \<and>
      field payload (js ''limit'') = JUndefined \<and>
      field payload (js ''offset'') = JUndefined \<and>
      fst (runSpotifyListMyPlaylists h linput rt) = Inr lout \<longrightarrow>
        lp_limit lout = lpi_limit linput \<and> lp_offset lout = lpi_offset linput)"
  using assms searchTracksOutput_echo [of h sinput payload sout]
    listMyPlaylistsOutput_echo [of h linput payload lout]
  by (auto simp: runSpotifySearchTracks_fst runSpotifyListMyPlaylists_fst)

theorem limit_offset_echoed_witness:
  "sti_limit sample_search_input = Finite (of_int 10) \<and>
   sti_offset sample_search_input = Finite (of_int 5) \<and>
   fst (resolveAccessToken (sample_host env_B (status_network 200 [] (Some (JObj []))))
          (sample_runtime None None)) = Inr (js ''B'') \<and>
   js ''/search?'' @ search_params_to_string (sample_host env_B (status_network 200 [] (Some (JObj []))))
       (searchTracksParams (sample_host env_B (status_network 200 [] (Some (JObj [])))) sample_search_input)
     = js ''/search?q=song&type=track&limit=10&offset=5'' \<and>
   fst (requestSpotify (sample_host env_B (status_network 200 [] (Some (JObj []))))
          (sample_runtime None None) (js ''B'') (js ''GET'')
          (js ''/search?q=song&type=track&limit=10&offset=5'') JUndefined) = Inr (JObj []) \<and>
   fst (runSpotifySearchTracks (sample_host env_B (status_network 200 [] (Some (JObj []))))
          sample_search_input (sample_runtime None None))
     = Inr \<lparr> st_total = Finite 0, st_limit = Finite 10, st_offset = Finite 5, st_tracks = [] \<rparr> \<and>
   fst (runSpotifyListMyPlaylists (sample_host env_B (status_network 200 [] (Some (JObj []))))
          \<lparr> lpi_limit = Finite 10, lpi_offset = Finite 5 \<rparr> (sample_runtime None None))
     = Inr \<lparr> lp_total = Finite 0, lp_limit = Finite 10, lp_offset = Finite 5, lp_playlists = [] \<rparr>"
  using
    limit_offset_echoed
      [where sinput = sample_search_input and linput = "\<lparr> lpi_limit = Finite 10, lpi_offset = Finite 5 \<rparr>"
         and l = 10 and k = 5
         and h = "sample_host env_B (status_network 200 [] (Some (JObj [])))"
         and rt = "sample_runtime None None" and token = "js ''B''" and payload = "JObj []"
         and sout = "\<lparr> st_total = Finite 0, st_limit = Finite 10, st_offset = Finite 5, st_tracks = [] \<rparr>"
         and lout = "\<lparr> lp_total = Finite 0, lp_limit = Finite 10, lp_offset = Finite 5, lp_playlists = [] \<rparr>"]
  by (simp add: runSpotifySearchTracks_fst runSpotifyListMyPlaylists_fst
        searchTracksOutput_def listMyPlaylistsOutput_def sample_search_input_def
        resolveAccessToken_def or_else_def sample_host_def sample_runtime_def env_B_def status_network_def
        requestSpotify_def response_ok_def get_def field_def nullish_def nullish_or_def
        array_or_empty_def length_js_def emap_def trim_def is_whitespace_def js_def
        searchTracksParams_def sample_number_to_string_def decimal.simps)







lemma string_or_null_undefined [simp]: "string_or_null h JUndefined = Inr None"
  by (simp add: string_or_null_def)

lemma field_undefined [simp]: "field JUndefined k = JUndefined"
  by (simp add: field_def)



lemma array_or_empty_undefined [simp]: "array_or_empty JUndefined = []"
  by (simp add: array_or_empty_def)

lemma emap_Nil [simp]: "emap f [] = Inr []"
  by (simp add: emap_def)










end
